theory Spec2Isabelle
  imports Complex_Main "HOL-Library.Word"
begin

section \<open>Data model of the sampling and timing core (src/main.cpp)\<close>

text \<open>
  The firmware keeps its state in global structs. They are modelled by one record whose
  fields keep the names of the source; the struct a field belongs to is noted beside it.
  Fixed-width integers are machine words, so every addition and subtraction wraps as on
  the target (\<open>unsigned long\<close> is 32 bits on the SAMD21 the source is written for).
  \<open>float\<close> and \<open>double\<close> values are modelled by exact real numbers: the model follows
  the formulas of the source and leaves the rounding of IEEE arithmetic out. \<open>abs\<close> is
  the macro of the Arduino core, which keeps the floating-point type of its argument.

  The record holds the fields that the modelled functions read or write. Left out are
  the register settings of the ADC driver, the conversion statistics of \<open>adc_monitor\<close>,
  the health beacon and the fields that no function of the timing core reads.

  The hardware is read through parameters: every call of \<open>micros()\<close>, \<open>millis()\<close> and
  \<open>Serial1.availableForWrite()\<close> in a function is an argument of its model, in the
  order of the calls, so that a theorem about a function holds for all readings.
  Lines written to \<open>Serial1\<close> are appended to the field \<open>out\<close>.
\<close>

type_synonym u8 = "8 word"
type_synonym u16 = "16 word"
type_synonym u32 = "32 word"
type_synonym u64 = "64 word"

datatype TimingSource =
    TIMING_PPS_ACTIVE
  | TIMING_PPS_HOLDOVER
  | TIMING_INTERNAL_CAL
  | TIMING_INTERNAL_RAW

text \<open>The numeric code of a timing source, \<open>(int)advanced_timing.current_source\<close>.\<close>

fun source_code :: "TimingSource \<Rightarrow> int" where
  "source_code TIMING_PPS_ACTIVE = 0"
| "source_code TIMING_PPS_HOLDOVER = 1"
| "source_code TIMING_INTERNAL_CAL = 2"
| "source_code TIMING_INTERNAL_RAW = 3"

text \<open>
  The records written to the serial port. A sample line carries the sequence number, the
  timestamp cut to 32 bits as \<open>(unsigned long)timestamp\<close> does, and the channel values;
  diagnostic lines carry their tag and fixed text (numbers printed inside a diagnostic
  text are left out, those of \<open>OFLOW\<close>, \<open>SEQUENCE_GAP\<close> and \<open>SEQUENCE_RESET\<close> are kept).
\<close>

datatype line =
    SAMPLE_FULL u16 u32 int real int int int
  | SAMPLE_COMPACT u16 u32 int int int
  | OFLOW u32 u32 int
  | SEQUENCE_RESET u16 u16
  | SEQUENCE_GAP u16 u16 u16
  | SESSION u32 u32 real int u8 TimingSource real
  | WARNING string
  | DEBUG string
  | OK string
  | ERROR string
  | READY string

record state =
  \<comment> \<open>globals\<close>
  current_dithering :: u8
  num_channels :: int
  throughput_warning_sent :: bool \<comment> \<open>adc_monitor\<close>
  streaming :: bool
  stream_rate :: real
  sequence :: u16
  compact_output :: bool
  \<comment> \<open>session_tracker\<close>
  boot_id :: u32
  stream_id :: u32
  session_header_sent :: bool
  \<comment> \<open>serial_monitor\<close>
  buffer_overflows :: u32
  last_overflow_time :: u32
  bytes_sent :: u32
  samples_skipped_due_to_overflow :: u32
  overflow_warning_sent :: bool
  oflow_message_count :: u32
  last_oflow_message_time :: u32
  oflow_report_interval_ms :: u32
  \<comment> \<open>seq_validator\<close>
  expected_sequence :: u16
  sequence_gaps_detected :: u32
  sequence_resets_detected :: u32
  last_validation_time :: u32
  validation_enabled :: bool
  \<comment> \<open>advanced_timing: PPS management\<close>
  pps_received :: bool
  pps_micros :: u32
  last_pps_time :: u32
  pps_count :: u32
  pps_valid :: bool
  current_source :: TimingSource
  \<comment> \<open>advanced_timing: calibration data\<close>
  oscillator_calibration_ppm :: real
  cal_base_micros :: u64
  cal_base_millis :: u32
  calibration_valid :: bool
  \<comment> \<open>advanced_timing: clock reset detection and handling\<close>
  last_micros :: u32
  last_millis :: u32
  micros_wraparound_count :: u32
  virtual_micros_offset :: u64
  clock_reset_detected :: bool
  reset_detection_time :: u32
  pre_reset_virtual_time :: u64
  reset_recovery_samples :: u32
  timing_continuity_maintained :: bool
  \<comment> \<open>advanced_timing: overflow protection\<close>
  reference_update_interval :: u64
  last_reference_update_sample :: u64
  timing_base_virtual_micros :: u64
  reference_updates_count :: u32
  \<comment> \<open>advanced_timing: precision state\<close>
  sample_interval_us :: u64
  effective_interval_us :: real
  phase_acc_us :: real
  next_sample_micros :: u64
  timing_base_micros :: u64
  timing_established :: bool
  samples_generated :: u32
  sample_index :: u64
  \<comment> \<open>advanced_timing: phase alignment\<close>
  started_on_pps :: bool
  phase_nudge_applied :: bool
  phase_alignment_active :: bool
  phase_error_us :: real
  per_sample_phase_adjust_us :: real
  phase_adjust_samples_remaining :: u32
  pps_phase_lock_enabled :: bool
  \<comment> \<open>advanced_timing: synchronized and PPS-locked start\<close>
  waiting_for_sync_start :: bool
  sync_start_target_us :: u64
  sync_on_pps :: bool
  pps_countdown :: u8
  \<comment> \<open>advanced_timing: quality metrics\<close>
  timing_accuracy_us :: real
  pps_miss_count :: u32
  clock_resets_detected :: u32
  \<comment> \<open>advanced_timing: temperature-aware calibration\<close>
  temp_coefficient_ppm_per_c :: real
  reference_temp_c :: real
  temp_compensation_enabled :: bool
  \<comment> \<open>the function-local statics of updateTimingSource\<close>
  degradation_warned :: bool
  reset_warned :: bool
  \<comment> \<open>the two objects of the persistent store: offset 0 and offset 4\<close>
  eeprom_magic :: u32
  eeprom_ppm :: real
  \<comment> \<open>lines written to Serial1, oldest first\<close>
  out :: "line list"

text \<open>Writing one line to the serial port.\<close>

definition println :: "line \<Rightarrow> state \<Rightarrow> state" where
  "println l s = s\<lparr>out := out s @ [l]\<rparr>"

section \<open>Sequence validator\<close>

text \<open>
  \<open>validateAndCorrectSequence(uint16_t& seq)\<close>. The reference argument is passed in and
  handed back, so that a write to it would show in the second component of the result.
  The arithmetic on \<open>uint16_t\<close> operands is done in \<open>int\<close> and cut to 16 bits on
  assignment, as integer promotion does.
\<close>

definition validateAndCorrectSequence :: "u16 \<Rightarrow> state \<Rightarrow> bool \<times> u16 \<times> state" where
  "validateAndCorrectSequence seq s =
    (if \<not> validation_enabled s then (True, seq, s)
     else if expected_sequence s = 0 \<and> seq = 0 then
       (True, seq, s\<lparr>expected_sequence := 1\<rparr>)
     else if seq = expected_sequence s then
       (True, seq,
        s\<lparr>expected_sequence := word_of_int ((uint (expected_sequence s) + 1) mod 65536)\<rparr>)
     else
       let gap_size :: u16 =
             (if seq > expected_sequence s
              then word_of_int (uint seq - uint (expected_sequence s))
              else word_of_int ((65536 - uint (expected_sequence s)) + uint seq))
       in if seq < expected_sequence s \<and> gap_size > 1000 then
            (True, seq,
             (println (SEQUENCE_RESET (expected_sequence s) seq) s)
               \<lparr>sequence_resets_detected := sequence_resets_detected s + 1,
                expected_sequence := word_of_int ((uint seq + 1) mod 65536)\<rparr>)
          else
            (True, seq,
             (println (SEQUENCE_GAP (expected_sequence s) seq gap_size) s)
               \<lparr>sequence_gaps_detected := sequence_gaps_detected s + 1,
                expected_sequence := word_of_int ((uint seq + 1) mod 65536)\<rparr>))"

section \<open>Back-pressure\<close>

text \<open>
  \<open>checkSerialBufferOverflow\<close>; \<open>available_space\<close> is the reading of
  \<open>Serial1.availableForWrite()\<close> and \<open>now_ms\<close> that of \<open>millis()\<close>.
\<close>

definition checkSerialBufferOverflow :: "int \<Rightarrow> u32 \<Rightarrow> state \<Rightarrow> bool \<times> state" where
  "checkSerialBufferOverflow available_space now_ms s =
    (if available_space < 20 then
       let s1 = s\<lparr>buffer_overflows := buffer_overflows s + 1,
                  last_overflow_time := now_ms\<rparr>;
           s2 = (if \<not> overflow_warning_sent s1
                 then (println (WARNING ''Serial buffer near overflow'') s1)
                        \<lparr>overflow_warning_sent := True\<rparr>
                 else s1)
       in (True, s2)
     else if available_space > 50 then (False, s\<lparr>overflow_warning_sent := False\<rparr>)
     else (False, s))"

text \<open>
  The readings taken by one call of \<open>outputDataWithOverflowProtection\<close>: the free space
  and the time seen by the overflow check, then the time and the free space read for the
  \<open>OFLOW\<close> line.
\<close>

record tx_reads =
  tx_free :: int
  ms_check :: u32
  ms_oflow :: u32
  tx_free_oflow :: int

definition outputDataWithOverflowProtection ::
  "tx_reads \<Rightarrow> u16 \<Rightarrow> u64 \<Rightarrow> int \<Rightarrow> real \<Rightarrow> int \<Rightarrow> int \<Rightarrow> int \<Rightarrow> state \<Rightarrow> state" where
  "outputDataWithOverflowProtection r seq timestamp timing_source accuracy v1 v2 v3 s =
    (case checkSerialBufferOverflow (tx_free r) (ms_check r) s of
       (True, s1) \<Rightarrow>
         let s2 = s1\<lparr>samples_skipped_due_to_overflow :=
                        samples_skipped_due_to_overflow s1 + 1\<rparr>;
             current_time = ms_oflow r
         in if current_time - last_oflow_message_time s2 \<ge> oflow_report_interval_ms s2
            then (println (OFLOW (samples_skipped_due_to_overflow s2) (buffer_overflows s2)
                             (tx_free_oflow r)) s2)
                   \<lparr>oflow_message_count := oflow_message_count s2 + 1,
                    last_oflow_message_time := current_time\<rparr>
            else s2
     | (False, s1) \<Rightarrow>
         if compact_output s1
         then (println (SAMPLE_COMPACT seq (ucast timestamp) v1 v2 v3) s1)
                \<lparr>bytes_sent := bytes_sent s1 + 25\<rparr>
         else (println (SAMPLE_FULL seq (ucast timestamp) timing_source accuracy v1 v2 v3) s1)
                \<lparr>bytes_sent := bytes_sent s1 + 40\<rparr>)"

text \<open>The sample records among the lines written.\<close>

fun is_sample :: "line \<Rightarrow> bool" where
  "is_sample (SAMPLE_FULL _ _ _ _ _ _ _) = True"
| "is_sample (SAMPLE_COMPACT _ _ _ _ _) = True"
| "is_sample _ = False"

fun is_oflow :: "line \<Rightarrow> bool" where
  "is_oflow (OFLOW _ _ _) = True"
| "is_oflow _ = False"


section \<open>C arithmetic used by the source\<close>

text \<open>
  A conversion from a floating-point value to an integer type drops the fraction
  (rounds towards zero), and \<open>/\<close> and \<open>%\<close> on signed integers truncate towards zero.
\<close>

definition c_trunc :: "real \<Rightarrow> int" where
  "c_trunc x = (if x \<ge> 0 then \<lfloor>x\<rfloor> else \<lceil>x\<rceil>)"

definition c_div :: "int \<Rightarrow> int \<Rightarrow> int" where
  "c_div a b = sgn a * sgn b * (\<bar>a\<bar> div \<bar>b\<bar>)"

definition c_mod :: "int \<Rightarrow> int \<Rightarrow> int" where
  "c_mod a b = a - c_div a b * b"

section \<open>Virtual clock\<close>

text \<open>\<open>getVirtualMicros\<close>; \<open>current_micros\<close> is the reading of \<open>micros()\<close>.\<close>

definition getVirtualMicros :: "u32 \<Rightarrow> state \<Rightarrow> u64 \<times> state" where
  "getVirtualMicros current_micros s =
    (let s1 = (if current_micros < last_micros s
                  \<and> last_micros s - current_micros > 1000000000
               then println (DEBUG ''Late wraparound detection in getVirtualMicros()'')
                      (s\<lparr>micros_wraparound_count := micros_wraparound_count s + 1,
                         virtual_micros_offset := virtual_micros_offset s + 4294967296\<rparr>)
               else s);
         s2 = s1\<lparr>last_micros := current_micros\<rparr>
     in (virtual_micros_offset s2 + ucast current_micros, s2))"

text \<open>
  \<open>detectClockReset\<close>, with the readings of \<open>micros()\<close> and \<open>millis()\<close>. The first
  branch is the benign wrap, which returns false; the next three return true and leave
  the last readings as they were.
\<close>

definition detectClockReset :: "u32 \<Rightarrow> u32 \<Rightarrow> state \<Rightarrow> bool \<times> state" where
  "detectClockReset current_micros current_millis s =
    (if current_micros < last_micros s
        \<and> last_micros s > 4000000000 \<and> current_micros < 300000000
     then (False,
           (println (DEBUG ''micros() wraparound detected'')
              (s\<lparr>micros_wraparound_count := micros_wraparound_count s + 1,
                 virtual_micros_offset := virtual_micros_offset s + 4294967296\<rparr>))
             \<lparr>last_micros := current_micros, last_millis := current_millis\<rparr>)
     else if current_micros < last_micros s
        \<and> last_micros s - current_micros > 1000000
     then (True, println (WARNING ''Large backward micros() jump detected'') s)
     else if current_millis < last_millis s
        \<and> last_millis s - current_millis > 1000
     then (True, println (WARNING ''millis() went backward'') s)
     else if current_micros < 5000000 \<and> current_millis < 5000
        \<and> (last_micros s > 10000000 \<or> last_millis s > 10000)
     then (True, println (WARNING ''Clock values suggest recent MCU reset'') s)
     else (False, s\<lparr>last_micros := current_micros, last_millis := current_millis\<rparr>))"

text \<open>
  The readings of \<open>handleClockReset\<close>: \<open>millis()\<close> for the detection time, \<open>micros()\<close>
  and \<open>millis()\<close> for the last readings, and the \<open>micros()\<close> of its call of
  \<open>getVirtualMicros\<close>. The division by \<open>sample_interval_us\<close> is the unsigned 64-bit
  division; every setter of the source keeps that field at 1000 or more.
\<close>

record reset_reads =
  ms_detection :: u32
  us_last :: u32
  ms_last :: u32
  us_virtual :: u32

definition handleClockReset :: "reset_reads \<Rightarrow> state \<Rightarrow> state" where
  "handleClockReset r s =
    (let s1 = println (DEBUG ''Handling clock reset - attempting to maintain timing continuity'') s;
         s2 = s1\<lparr>clock_reset_detected := True,
                  reset_detection_time := ms_detection r,
                  clock_resets_detected := clock_resets_detected s1 + 1,
                  reset_recovery_samples := 0\<rparr>;
         s3 = s2\<lparr>pre_reset_virtual_time :=
                    virtual_micros_offset s2 + ucast (last_micros s2)\<rparr>;
         s4 = s3\<lparr>virtual_micros_offset := pre_reset_virtual_time s3,
                  last_micros := us_last r,
                  last_millis := ms_last r,
                  calibration_valid := False,
                  timing_accuracy_us := 1000,
                  current_source := TIMING_INTERNAL_RAW\<rparr>;
         s5 = (if timing_established s4 \<and> streaming s4 then
                 (case getVirtualMicros (us_virtual r) s4 of (virtual_time, t) \<Rightarrow>
                    let time_since_start =
                          virtual_time - (timing_base_micros t + virtual_micros_offset t);
                        expected_sample_index = time_since_start div sample_interval_us t
                    in println (DEBUG ''Timing continuity maintained'')
                         (t\<lparr>sample_index := expected_sample_index,
                            timing_continuity_maintained := True\<rparr>))
               else s4)
     in println (DEBUG ''Clock reset handled'') s5)"

section \<open>Timestamps\<close>

text \<open>
  \<open>calculateCalibratedTimestamp\<close>. The source forms the corrected elapsed time as a
  product of \<open>double\<close> values (the calibration is a \<open>float\<close>) and cuts it to an
  integer. Here the product is the exact real one: where the exact product is a whole
  number, or lies just above one, the rounding of the program's product can leave its
  timestamp one microsecond below the value of this definition. No property below
  states the value of a timestamp.
\<close>

definition calculateCalibratedTimestamp :: "u64 \<Rightarrow> state \<Rightarrow> u64" where
  "calculateCalibratedTimestamp current_micros s =
    (if \<not> calibration_valid s then current_micros
     else
       let elapsed_micros = current_micros - cal_base_micros s;
           corrected_elapsed =
             real (unat elapsed_micros) * (1 + oscillator_calibration_ppm s / 1000000)
       in cal_base_micros s + word_of_int (c_trunc corrected_elapsed))"

definition getPreciseTimestamp :: "u32 \<Rightarrow> state \<Rightarrow> u64 \<times> state" where
  "getPreciseTimestamp current_micros s =
    (case getVirtualMicros current_micros s of (virtual_micros, s1) \<Rightarrow>
       (case current_source s1 of
          TIMING_INTERNAL_RAW \<Rightarrow> (virtual_micros, s1)
        | _ \<Rightarrow> (calculateCalibratedTimestamp virtual_micros s1, s1)))"

section \<open>Scheduler: establishing and rebasing\<close>

text \<open>
  \<open>establishSamplingTiming\<close>. The remainder is cut to \<open>unsigned long\<close> (32 bits) before
  it is subtracted, as in the source. The remainder is the unsigned 64-bit one; every
  setter of the source keeps \<open>sample_interval_us\<close> at 1000 or more.
\<close>

definition establishSamplingTiming :: "u32 \<Rightarrow> state \<Rightarrow> state" where
  "establishSamplingTiming current_micros s =
    (case getVirtualMicros current_micros s of (current_virtual_micros, s1) \<Rightarrow>
       let offset_us :: u32 = ucast (current_virtual_micros mod sample_interval_us s1);
           next_boundary_micros =
             current_virtual_micros + (sample_interval_us s1 - ucast offset_us)
       in println (DEBUG ''Sampling established'')
            (s1\<lparr>timing_base_micros := next_boundary_micros,
                timing_base_virtual_micros := next_boundary_micros,
                timing_established := True,
                samples_generated := 0,
                sample_index := 0,
                next_sample_micros := next_boundary_micros,
                last_reference_update_sample := 0\<rparr>))"

definition updateTimingReference :: "u32 \<Rightarrow> state \<Rightarrow> state" where
  "updateTimingReference current_micros s =
    (case getVirtualMicros current_micros s of (current_virtual_micros, s1) \<Rightarrow>
       let samples_since_start = sample_index s1
       in println (DEBUG ''Timing reference updated'')
            (s1\<lparr>timing_base_micros := current_virtual_micros,
                timing_base_virtual_micros := current_virtual_micros,
                sample_index := 0,
                next_sample_micros := current_virtual_micros,
                last_reference_update_sample := samples_since_start,
                reference_updates_count := reference_updates_count s1 + 1\<rparr>))"

section \<open>Sample producer\<close>

text \<open>
  \<open>verifyADCThroughput\<close>. The samples per second of the ADC rate preset come from a
  switch over constants of the ADC driver, which is not part of this program; the
  result of that switch is the parameter \<open>adc_rate_sps\<close>.
\<close>

definition verifyADCThroughput :: "u32 \<Rightarrow> state \<Rightarrow> bool \<times> state" where
  "verifyADCThroughput adc_rate_sps s =
    (let required_samples_per_sec :: u32 =
           word_of_int (c_trunc (real_of_int (num_channels s)
             * real_of_int (max 1 (uint (current_dithering s))) * stream_rate s * 2));
         adequate = (adc_rate_sps \<ge> required_samples_per_sec)
     in if \<not> adequate \<and> \<not> throughput_warning_sent s
        then (adequate, (println (WARNING ''ADC throughput inadequate'') s)
                           \<lparr>throughput_warning_sent := True\<rparr>)
        else if adequate \<and> throughput_warning_sent s
        then (adequate, s\<lparr>throughput_warning_sent := False\<rparr>)
        else (adequate, s))"

text \<open>
  The readings of one call of \<open>generatePreciseSample\<close>: \<open>micros()\<close> at entry, in the
  rebase (read only when the rebase runs) and for the timestamp; the rate of the ADC
  preset; the three channel values that the acquisition block (single reading or
  oversampled mean, which touches only the ADC and the counters of \<open>adc_monitor\<close>)
  hands to the output; and the readings of the output.
\<close>

record sample_reads =
  us_entry :: u32
  us_rebase :: u32
  rate_sps :: u32
  us_stamp :: u32
  value1 :: int
  value2 :: int
  value3 :: int
  tx :: tx_reads

definition generatePreciseSample :: "sample_reads \<Rightarrow> state \<Rightarrow> state" where
  "generatePreciseSample r s =
    (case getVirtualMicros (us_entry r) s of (current_virtual_micros, s1) \<Rightarrow>
       let s2 = (if sample_index s1 \<ge> reference_update_interval s1
                 then updateTimingReference (us_rebase r) s1 else s1);
           s3 = snd (verifyADCThroughput (rate_sps r) s2)
       in (case getPreciseTimestamp (us_stamp r) s3 of (precise_timestamp, s4) \<Rightarrow>
            (case validateAndCorrectSequence (sequence s4) s4 of (valid, seq', s5) \<Rightarrow>
               let s6 = s5\<lparr>sequence := seq'\<rparr>;
                   s7 = outputDataWithOverflowProtection (tx r) (sequence s6)
                          precise_timestamp (source_code (current_source s6))
                          (timing_accuracy_us s6) (value1 r) (value2 r) (value3 r) s6;
                   s8 = s7\<lparr>sequence := word_of_int ((uint (sequence s7) + 1) mod 65536),
                            samples_generated := samples_generated s7 + 1,
                            sample_index := sample_index s7 + 1\<rparr>
               in if clock_reset_detected s8
                  then s8\<lparr>reset_recovery_samples := reset_recovery_samples s8 + 1\<rparr>
                  else s8)))"


section \<open>Session header, calibration limits and the persistent store\<close>

text \<open>\<open>sendSessionHeader\<close>; \<open>now_ms\<close> is the reading of \<open>millis()\<close> for the stream id.\<close>

definition sendSessionHeader :: "u32 \<Rightarrow> state \<Rightarrow> state" where
  "sendSessionHeader now_ms s =
    (if session_header_sent s then s
     else
       let s1 = s\<lparr>stream_id := now_ms\<rparr>
       in (println (SESSION (boot_id s1) (stream_id s1) (stream_rate s1) (num_channels s1)
                      (current_dithering s1) (current_source s1)
                      (oscillator_calibration_ppm s1)) s1)
            \<lparr>session_header_sent := True\<rparr>)"

definition clampOscillatorCalibration :: "state \<Rightarrow> state" where
  "clampOscillatorCalibration s =
    (if oscillator_calibration_ppm s > 200 then
       (println (WARNING ''Oscillator calibration clamped to 200 ppm'') s)
         \<lparr>oscillator_calibration_ppm := 200\<rparr>
     else if oscillator_calibration_ppm s < - 200 then
       (println (WARNING ''Oscillator calibration clamped to -200 ppm'') s)
         \<lparr>oscillator_calibration_ppm := - 200\<rparr>
     else s)"

text \<open>
  The persistent store holds two objects of four bytes each, the magic word at offset 0
  and the ppm value at offset 4; \<open>EEPROM.put\<close> writes an object and \<open>EEPROM.get\<close>
  reads it back. The store is modelled by these two objects (the fields
  \<open>eeprom_magic\<close> and \<open>eeprom_ppm\<close>), not by its bytes.
\<close>

definition EEPROM_CAL_MAGIC :: u32 where
  "EEPROM_CAL_MAGIC = 0x12345678"

definition saveOscillatorCalibration :: "state \<Rightarrow> state" where
  "saveOscillatorCalibration s =
    println (DEBUG ''Saved oscillator calibration to EEPROM'')
      (s\<lparr>eeprom_magic := EEPROM_CAL_MAGIC,
         eeprom_ppm := oscillator_calibration_ppm s\<rparr>)"

definition loadOscillatorCalibration :: "state \<Rightarrow> state" where
  "loadOscillatorCalibration s =
    (let magic = eeprom_magic s;
         stored_ppm = eeprom_ppm s
     in if magic = EEPROM_CAL_MAGIC \<and> \<bar>stored_ppm\<bar> \<le> 200 then
          println (DEBUG ''Loaded oscillator calibration from EEPROM'')
            (s\<lparr>oscillator_calibration_ppm := stored_ppm, calibration_valid := True\<rparr>)
        else println (DEBUG ''No valid calibration found in EEPROM'') s)"

text \<open>\<open>readInternalTemperature\<close> is the placeholder of the source.\<close>

definition readInternalTemperature :: real where
  "readInternalTemperature = 25"

section \<open>Discipline engine: processPPS\<close>

text \<open>
  The block that begins streaming at a PPS edge. It occurs twice in \<open>processPPS\<close>: at
  the head of the function, where it also clears \<open>sync_on_pps\<close>, stores
  \<open>last_pps_time\<close> and returns, and at its tail, where it does neither.
  \<open>pps\<close> is the local copy of \<open>advanced_timing.pps_micros\<close>, a raw 32-bit reading.
\<close>

definition begin_streaming_at_pps :: "bool \<Rightarrow> u32 \<Rightarrow> u32 \<Rightarrow> u32 \<Rightarrow> state \<Rightarrow> state" where
  "begin_streaming_at_pps at_head pps current_millis session_ms s =
    (let s1 = s\<lparr>timing_base_micros := ucast pps,
                 next_sample_micros := ucast pps,
                 timing_established := True,
                 waiting_for_sync_start := False\<rparr>;
         s2 = (if at_head then s1\<lparr>sync_on_pps := False\<rparr> else s1);
         s3 = s2\<lparr>started_on_pps := True, sequence := 0, streaming := True\<rparr>;
         s4 = println (OK ''Streaming started at PPS'') (sendSessionHeader session_ms s3)
     in if at_head then s4\<lparr>last_pps_time := current_millis\<rparr> else s4)"

text \<open>Lines 713 to 769: the estimate of the oscillator error and its smoothing.\<close>

definition pps_calibrate :: "u32 \<Rightarrow> state \<Rightarrow> state" where
  "pps_calibrate pps s =
    (if pps_count s > 1 \<and> calibration_valid s \<and> \<not> clock_reset_detected s then
       let actual_interval :: u64 = ucast pps - cal_base_micros s;
           error_ppm = (real (unat actual_interval) - 1000000) / 1000000 * 1000000
       in if \<bar>error_ppm\<bar> < 1000 then
            let s1 =
              (if pps_count s < 10 then s\<lparr>oscillator_calibration_ppm := - error_ppm\<rparr>
               else
                 let a = s\<lparr>oscillator_calibration_ppm :=
                             0.9 * oscillator_calibration_ppm s + 0.1 * (- error_ppm)\<rparr>;
                     b = saveOscillatorCalibration (clampOscillatorCalibration a)
                 in if pps_count b > 100 \<and> unat (pps_count b) mod 50 = 0 then
                      let current_temp = readInternalTemperature;
                          temp_change = current_temp - reference_temp_c b
                      in if \<bar>temp_change\<bar> > 1 then
                           println (DEBUG ''Learned temperature coefficient'')
                             (b\<lparr>temp_coefficient_ppm_per_c :=
                                   (oscillator_calibration_ppm b - 0) / temp_change,
                                temp_compensation_enabled := True\<rparr>)
                         else b
                    else b)
            in if unat (pps_count s1) mod 10 = 0
               then println (DEBUG ''Oscillator cal'') s1 else s1
          else println (WARNING ''PPS calibration error too large'') s
     else s)"

text \<open>
  The signed phase of a PPS edge on the sampling grid, in \<open>long long\<close> arithmetic
  (two's complement), and the number of samples a correction is spread over.
\<close>

definition signed_phase_of :: "u64 \<Rightarrow> u64 \<Rightarrow> u64 \<Rightarrow> int" where
  "signed_phase_of pps_virtual base interval =
    (let delta = sint (pps_virtual - base);
         imod = sint interval;
         phase_mod = c_mod (c_mod delta imod + imod) imod
     in if phase_mod \<le> sint (interval div 2) then phase_mod
        else phase_mod - sint interval)"

definition clamp_per_sample :: "real \<Rightarrow> real" where
  "clamp_per_sample x =
    (let y = (if x > 20 then 20 else x) in if y < - 20 then - 20 else y)"

definition samples_needed_for :: "int \<Rightarrow> real \<Rightarrow> u32" where
  "samples_needed_for signed_phase per_sample =
    (let n :: u32 = word_of_int (c_trunc
           (\<bar>real_of_int signed_phase\<bar> / (if \<bar>per_sample\<bar> > 0 then \<bar>per_sample\<bar> else 1)
            + 0.5))
     in if n = 0 then 1 else n)"

text \<open>Lines 783 to 825: the one-shot phase nudge.\<close>

definition pps_phase_nudge :: "u32 \<Rightarrow> state \<Rightarrow> state" where
  "pps_phase_nudge pps s =
    (if streaming s \<and> timing_established s \<and> \<not> started_on_pps s
        \<and> \<not> phase_nudge_applied s then
       let pps_virtual = virtual_micros_offset s + ucast pps;
           interval = sample_interval_us s
       in if interval > 0 then
            let signed_phase = signed_phase_of pps_virtual (timing_base_micros s) interval
            in if signed_phase > 20 \<or> signed_phase < - 20 then
                 let per_sample = clamp_per_sample (real_of_int signed_phase / 200);
                     samples_needed = samples_needed_for signed_phase per_sample
                 in println (DEBUG ''Applying phase nudge to PPS'')
                      (s\<lparr>phase_error_us := real_of_int signed_phase,
                         per_sample_phase_adjust_us := per_sample,
                         phase_adjust_samples_remaining := samples_needed,
                         phase_alignment_active := True,
                         phase_nudge_applied := True\<rparr>)
               else s
          else s
     else s)"

text \<open>Lines 827 to 862: the continuous PPS phase lock.\<close>

definition pps_phase_lock :: "u32 \<Rightarrow> state \<Rightarrow> state" where
  "pps_phase_lock pps s =
    (if streaming s \<and> timing_established s \<and> pps_phase_lock_enabled s then
       let pps_virtual2 = virtual_micros_offset s + ucast pps;
           interval2 = sample_interval_us s
       in if interval2 > 0 then
            let signed_phase2 = signed_phase_of pps_virtual2 (timing_base_micros s) interval2
            in if signed_phase2 > 5 \<or> signed_phase2 < - 5 then
                 let sps :: u32 = word_of_int (c_trunc (stream_rate s + 0.5));
                     samples_per_second = (if sps = 0 then 1 else sps);
                     per_sample2 = clamp_per_sample
                       (real_of_int signed_phase2 / real (unat samples_per_second));
                     samples_needed2 = samples_needed_for signed_phase2 per_sample2
                 in println (DEBUG ''PPS lock adjust'')
                      (s\<lparr>phase_error_us := real_of_int signed_phase2,
                         per_sample_phase_adjust_us := per_sample2,
                         phase_adjust_samples_remaining := samples_needed2,
                         phase_alignment_active := True\<rparr>)
               else s
          else s
     else s)"

text \<open>
  Lines 694 to 886: what \<open>processPPS\<close> does with an edge that did not begin streaming
  at the head of the function.
\<close>

definition pps_discipline :: "u32 \<Rightarrow> u32 \<Rightarrow> u32 \<Rightarrow> state \<Rightarrow> state" where
  "pps_discipline pps current_millis session_ms s =
    (if clock_reset_detected s \<and> current_millis - reset_detection_time s < 5000 then
       println (DEBUG ''Ignoring PPS during reset recovery period'') s
     else if pps_valid s
        \<and> (current_millis - last_pps_time s < 900 \<or> current_millis - last_pps_time s > 1100)
     then println (WARNING ''Invalid PPS interval'') s
     else
       let s1 = pps_calibrate pps s;
           s2 = (if \<not> pps_valid s1 then println (DEBUG ''GPS PPS acquired'') s1 else s1);
           s3 = s2\<lparr>pps_valid := True,
                    calibration_valid := True,
                    cal_base_micros := ucast pps,
                    cal_base_millis := current_millis,
                    last_pps_time := current_millis\<rparr>;
           s4 = pps_phase_lock pps (pps_phase_nudge pps s3);
           s5 = (if sync_on_pps s4 \<and> pps_countdown s4 > 0 then
                   let c = s4\<lparr>pps_countdown := pps_countdown s4 - 1\<rparr>
                   in if pps_countdown c = 0
                      then begin_streaming_at_pps False pps current_millis session_ms c
                      else c
                 else s4)
       in if clock_reset_detected s5
          then println (DEBUG ''PPS reacquired after reset - timing stabilizing'') s5
          else s5)"

text \<open>
  \<open>processPPS\<close>, with the reading of \<open>millis()\<close> at its entry and the one that
  \<open>sendSessionHeader\<close> takes when streaming begins at this edge.
\<close>

definition processPPS :: "u32 \<Rightarrow> u32 \<Rightarrow> state \<Rightarrow> state" where
  "processPPS current_millis session_ms s =
    (let pps = pps_micros s;
         s1 = s\<lparr>pps_count := pps_count s + 1\<rparr>
     in if sync_on_pps s1 \<and> pps_countdown s1 > 0 then
          let c = s1\<lparr>pps_countdown := pps_countdown s1 - 1\<rparr>
          in if pps_countdown c = 0
             then begin_streaming_at_pps True pps current_millis session_ms c
             else pps_discipline pps current_millis session_ms c
        else pps_discipline pps current_millis session_ms s1)"

text \<open>\<open>pps_interrupt\<close>, with the readings of \<open>micros()\<close> and \<open>millis()\<close> in the ISR.\<close>

definition pps_interrupt :: "u32 \<Rightarrow> u32 \<Rightarrow> state \<Rightarrow> state" where
  "pps_interrupt now_us now_ms s =
    s\<lparr>pps_received := True, pps_micros := now_us, last_pps_time := now_ms\<rparr>"


section \<open>Timing-quality state machine: updateTimingSource\<close>

text \<open>
  The readings of one call of \<open>updateTimingSource\<close>: \<open>millis()\<close> at entry, the two
  readings of \<open>detectClockReset\<close>, those of \<open>handleClockReset\<close> and those of
  \<open>processPPS\<close> (the last two are read only when these functions run).
\<close>

record tick_reads =
  ms_entry :: u32
  us_detect :: u32
  ms_detect :: u32
  reset :: reset_reads
  ms_pps :: u32
  ms_session :: u32

text \<open>Lines 459 to 468: reset detection and the pending PPS edge.\<close>

definition updateTimingSource_events :: "tick_reads \<Rightarrow> state \<Rightarrow> state" where
  "updateTimingSource_events r s =
    (let s1 = (case detectClockReset (us_detect r) (ms_detect r) s of
                 (True, t) \<Rightarrow> handleClockReset (reset r) t
               | (False, t) \<Rightarrow> t)
     in if pps_received s1
        then (processPPS (ms_pps r) (ms_session r) s1)\<lparr>pps_received := False\<rparr>
        else s1)"

text \<open>
  Lines 470 to 525: the classification, on the state the events left. The field
  \<open>timing_accuracy_us\<close> is a \<open>float\<close>: the source evaluates the accuracy in
  \<open>double\<close> and narrows it to 32 bits at the assignment. Here the accuracy is the
  exact real value of the expression, which the program holds only where that value
  is a 32-bit float (1, 1000 and 2000 are; \<open>1.0 + 1.5 * 0.1\<close> is not). The
  properties below use the accuracy only with the value 1000.
\<close>

definition classifyTimingSource :: "u32 \<Rightarrow> state \<Rightarrow> state" where
  "classifyTimingSource current_millis s =
    (let time_since_reset = current_millis - reset_detection_time s;
         recent_reset = (clock_reset_detected s \<and> time_since_reset < 30000);
         time_since_pps = current_millis - last_pps_time s;
         s1 =
           (if pps_valid s \<and> time_since_pps < 1500 \<and> \<not> recent_reset then
              s\<lparr>current_source := TIMING_PPS_ACTIVE,
                timing_accuracy_us := 1.0,
                pps_miss_count := 0\<rparr>
            else if pps_valid s \<and> time_since_pps < 60000 \<and> \<not> recent_reset then
              s\<lparr>current_source := TIMING_PPS_HOLDOVER,
                timing_accuracy_us := 1.0 + (real (unat time_since_pps) / 1000.0) * 0.1,
                pps_miss_count := pps_miss_count s + 1\<rparr>
            else if calibration_valid s \<and> time_since_pps < 300000 \<and> \<not> recent_reset then
              s\<lparr>current_source := TIMING_INTERNAL_CAL,
                timing_accuracy_us := 10.0 + (real (unat time_since_pps) / 1000.0) * 0.3\<rparr>
            else
              let a = s\<lparr>current_source := TIMING_INTERNAL_RAW,
                        timing_accuracy_us := (if recent_reset then 2000.0 else 1000.0)\<rparr>
              in if recent_reset \<and> \<not> reset_warned a then
                   (println (WARNING ''Using raw timing due to recent clock reset'') a)
                     \<lparr>reset_warned := True, degradation_warned := False\<rparr>
                 else if pps_valid a \<and> \<not> degradation_warned a \<and> \<not> recent_reset then
                   (println (WARNING ''GPS PPS lost - timing accuracy degraded'') a)
                     \<lparr>pps_valid := False, degradation_warned := True, reset_warned := False\<rparr>
                 else a)
     in if recent_reset \<and> time_since_reset > 30000
        then println (DEBUG ''Clock reset recovery period completed'')
               (s1\<lparr>clock_reset_detected := False\<rparr>)
        else s1)"

definition updateTimingSource :: "tick_reads \<Rightarrow> state \<Rightarrow> state" where
  "updateTimingSource r s = classifyTimingSource (ms_entry r) (updateTimingSource_events r s)"

section \<open>Fractional scheduler: the streaming block of loop()\<close>

text \<open>
  Lines 316 to 367 of \<open>loop()\<close>, the only place where \<open>generatePreciseSample\<close> is
  called. \<open>us_now\<close> is the \<open>micros()\<close> of the scheduler's \<open>getVirtualMicros\<close>. The
  \<open>long long\<close> subtractions are two's complement; the division is by the effective
  interval cut to an integer, which the setters of the source keep at 999 or more.
  \<open>advance_schedule\<close> is the part after the call of \<open>generatePreciseSample\<close>
  (lines 336 to 365): the skip over missed slots and the fractional advance.
  The effective interval, the accumulator and the step are \<open>double\<close> values in the
  source and exact reals here. With a calibration of 0 ppm the effective interval is
  the whole sample interval in both; otherwise the program's values carry the
  rounding of \<open>double\<close>, and where an exact value is a whole number, or within that
  rounding of one, its cut to an integer can differ by one microsecond.
\<close>

definition advance_schedule :: "u64 \<Rightarrow> state \<Rightarrow> state" where
  "advance_schedule now_virtual s4 =
    (let missed_slots = c_div (sint (now_virtual - next_sample_micros s4))
                              (c_trunc (effective_interval_us s4));
         s5 = (if missed_slots > 0 then
                 println (DEBUG ''Skipped missed slots'')
                   (s4\<lparr>next_sample_micros := next_sample_micros s4
                          + word_of_int (missed_slots
                              * c_trunc (effective_interval_us s4))\<rparr>)
               else s4);
         step0 = effective_interval_us s5 + phase_acc_us s5;
         aligning = (phase_alignment_active s5
                     \<and> phase_adjust_samples_remaining s5 > 0);
         step = (if aligning then step0 + per_sample_phase_adjust_us s5 else step0);
         s6 = (if aligning then
                 let a = s5\<lparr>phase_adjust_samples_remaining :=
                                phase_adjust_samples_remaining s5 - 1\<rparr>
                 in if phase_adjust_samples_remaining a = 0 then
                      println (DEBUG ''Phase alignment completed'')
                        (a\<lparr>phase_alignment_active := False,
                           per_sample_phase_adjust_us := 0.0,
                           phase_error_us := 0.0\<rparr>)
                    else a
               else s5);
         whole_us = c_trunc step
     in s6\<lparr>phase_acc_us := step - real_of_int whole_us,
           next_sample_micros := next_sample_micros s6 + word_of_int whole_us\<rparr>)"

definition loop_streaming :: "u32 \<Rightarrow> sample_reads \<Rightarrow> state \<Rightarrow> state" where
  "loop_streaming us_now r s =
    (if streaming s \<and> timing_established s then
       let s1 = (if next_sample_micros s = 0
                 then s\<lparr>next_sample_micros := timing_base_micros s\<rparr> else s);
           s2 = s1\<lparr>effective_interval_us :=
                      real (unat (sample_interval_us s1))
                        * (1.0 - (oscillator_calibration_ppm s1 / 1000000))\<rparr>
       in (case getVirtualMicros us_now s2 of (now_virtual, s3) \<Rightarrow>
            if sint (now_virtual - next_sample_micros s3) \<ge> 0
            then advance_schedule now_virtual (generatePreciseSample r s3)
            else s3)
     else s)"

text \<open>
  Lines 283 to 314 of \<open>loop()\<close>: while a synchronized start is pending the loop
  returns before the scheduler. Armed for a PPS edge it only yields; otherwise it
  waits for the strict start target and establishes the timing when the target has
  passed.
\<close>

definition loop_sync_wait :: "u32 \<Rightarrow> state \<Rightarrow> state" where
  "loop_sync_wait us_now s =
    (if sync_on_pps s then s
     else
       (case getVirtualMicros us_now s of (now_us, s1) \<Rightarrow>
          if sint (now_us - sync_start_target_us s1) \<ge> 0 then
            println (OK ''Streaming started (strict target)'')
              (s1\<lparr>timing_base_micros := now_us,
                  next_sample_micros := now_us,
                  timing_established := True,
                  waiting_for_sync_start := False,
                  samples_generated := 0,
                  sample_index := 0\<rparr>)
          else s1))"

text \<open>
  Lines 283 to 367: the part of one iteration of \<open>loop()\<close> that follows the
  timing-source update, the health beacon and the command input, none of which calls
  \<open>generatePreciseSample\<close>.
\<close>

definition loop_scheduler :: "u32 \<Rightarrow> sample_reads \<Rightarrow> state \<Rightarrow> state" where
  "loop_scheduler us_now r s =
    (if waiting_for_sync_start s then loop_sync_wait us_now s
     else loop_streaming us_now r s)"

section \<open>Commands\<close>

text \<open>
  The commands are modelled after parsing: the arguments are the numbers that
  \<open>toFloat\<close> and \<open>toInt\<close> returned.
\<close>

definition isRateChangeAllowed :: "real \<Rightarrow> state \<Rightarrow> bool \<times> state" where
  "isRateChangeAllowed new_rate s =
    (let rate_change_ppm = \<bar>(new_rate - stream_rate s) / stream_rate s\<bar> * 1000000;
         pps_locked = (current_source s = TIMING_PPS_ACTIVE)
     in if pps_locked \<and> rate_change_ppm > 50
        then (False, println (ERROR ''Rate change too large while PPS locked'') s)
        else if rate_change_ppm > 1000
        then (True, println (WARNING ''Large rate change detected'') s)
        else (True, s))"

text \<open>
  \<open>START_STREAM\<close>; \<open>now_us\<close> is the \<open>micros()\<close> read by \<open>establishSamplingTiming\<close>
  and \<open>session_ms\<close> the \<open>millis()\<close> read by \<open>sendSessionHeader\<close>.
\<close>

definition start_now :: "u32 \<Rightarrow> u32 \<Rightarrow> state \<Rightarrow> state" where
  "start_now now_us session_ms s =
    println (OK ''Streaming started'')
      (sendSessionHeader session_ms
         ((establishSamplingTiming now_us (s\<lparr>sequence := 0\<rparr>))\<lparr>streaming := True\<rparr>))"

definition cmd_START_STREAM :: "real \<Rightarrow> u32 \<Rightarrow> u32 \<Rightarrow> state \<Rightarrow> state" where
  "cmd_START_STREAM rate now_us session_ms s =
    (if \<not> streaming s then
       if rate > 0 \<and> rate \<le> 1000 then
         (case isRateChangeAllowed rate s of
            (True, t) \<Rightarrow>
              start_now now_us session_ms
                (t\<lparr>stream_rate := rate,
                   sample_interval_us := word_of_int (c_trunc (1000000.0 / rate))\<rparr>)
          | (False, t) \<Rightarrow> t)
       else start_now now_us session_ms s
     else println (ERROR ''Already streaming'') s)"

text \<open>\<open>START_STREAM_PPS rate,n\<close> (lines 1388 to 1412).\<close>

definition cmd_START_STREAM_PPS :: "real \<Rightarrow> int \<Rightarrow> state \<Rightarrow> state" where
  "cmd_START_STREAM_PPS rate pps_wait s =
    (if \<not> streaming s then
       if rate > 0 \<and> rate \<le> 1000 \<and> pps_wait \<ge> 1 \<and> pps_wait \<le> 5 then
         println (OK ''Waiting for PPS edges to start'')
           (s\<lparr>stream_rate := rate,
              sample_interval_us := word_of_int (c_trunc (1000000.0 / rate)),
              sync_on_pps := True,
              pps_countdown := word_of_int pps_wait,
              waiting_for_sync_start := True\<rparr>)
       else println (ERROR ''Invalid rate or PPS wait count (1-5)'') s
     else println (ERROR ''Already streaming'') s)"

definition cmd_STOP_STREAM :: "state \<Rightarrow> state" where
  "cmd_STOP_STREAM s =
    println (OK ''Streaming stopped'')
      (println (DEBUG ''Generated samples'')
         (s\<lparr>streaming := False,
            timing_established := False,
            sync_on_pps := False,
            pps_countdown := 0,
            waiting_for_sync_start := False,
            session_header_sent := False\<rparr>))"

definition cmd_SET_CAL_PPM :: "real \<Rightarrow> state \<Rightarrow> state" where
  "cmd_SET_CAL_PPM ppm_value s =
    println (OK ''Manual calibration set'')
      (saveOscillatorCalibration
         (clampOscillatorCalibration
            (s\<lparr>oscillator_calibration_ppm := ppm_value, calibration_valid := True\<rparr>)))"


section \<open>Power-on and setup()\<close>

text \<open>
  The globals at power-on: static storage is zero, except where the declaration has an
  initialiser. The content of the persistent store outlives the power cycle and is a
  parameter.
\<close>

definition power_on :: "u32 \<Rightarrow> real \<Rightarrow> state" where
  "power_on magic ppm =
    \<lparr>current_dithering = 4, num_channels = 3, throughput_warning_sent = False,
     streaming = False, stream_rate = 100.0, sequence = 0, compact_output = False,
     boot_id = 0, stream_id = 0, session_header_sent = False,
     buffer_overflows = 0, last_overflow_time = 0, bytes_sent = 0,
     samples_skipped_due_to_overflow = 0, overflow_warning_sent = False,
     oflow_message_count = 0, last_oflow_message_time = 0, oflow_report_interval_ms = 0,
     expected_sequence = 0, sequence_gaps_detected = 0, sequence_resets_detected = 0,
     last_validation_time = 0, validation_enabled = False,
     pps_received = False, pps_micros = 0, last_pps_time = 0, pps_count = 0,
     pps_valid = False, current_source = TIMING_PPS_ACTIVE,
     oscillator_calibration_ppm = 0, cal_base_micros = 0, cal_base_millis = 0,
     calibration_valid = False,
     last_micros = 0, last_millis = 0, micros_wraparound_count = 0,
     virtual_micros_offset = 0, clock_reset_detected = False, reset_detection_time = 0,
     pre_reset_virtual_time = 0, reset_recovery_samples = 0,
     timing_continuity_maintained = False,
     reference_update_interval = 0, last_reference_update_sample = 0,
     timing_base_virtual_micros = 0, reference_updates_count = 0,
     sample_interval_us = 0, effective_interval_us = 0, phase_acc_us = 0,
     next_sample_micros = 0, timing_base_micros = 0, timing_established = False,
     samples_generated = 0, sample_index = 0,
     started_on_pps = False, phase_nudge_applied = False, phase_alignment_active = False,
     phase_error_us = 0, per_sample_phase_adjust_us = 0,
     phase_adjust_samples_remaining = 0, pps_phase_lock_enabled = False,
     waiting_for_sync_start = False, sync_start_target_us = 0, sync_on_pps = False,
     pps_countdown = 0,
     timing_accuracy_us = 0, pps_miss_count = 0, clock_resets_detected = 0,
     temp_coefficient_ppm_per_c = 0, reference_temp_c = 0,
     temp_compensation_enabled = False,
     degradation_warned = False, reset_warned = False,
     eeprom_magic = magic, eeprom_ppm = ppm,
     out = []\<rparr>"

text \<open>\<open>setupAdvancedTiming\<close>, with its readings of \<open>micros()\<close> and \<open>millis()\<close>.\<close>

definition setupAdvancedTiming :: "u32 \<Rightarrow> u32 \<Rightarrow> state \<Rightarrow> state" where
  "setupAdvancedTiming now_us now_ms s =
    println (DEBUG ''Advanced timing system initialized with overflow protection'')
      (s\<lparr>pps_received := False, pps_valid := False,
         current_source := TIMING_INTERNAL_RAW,
         oscillator_calibration_ppm := 0.0,
         timing_accuracy_us := 1000.0,
         pps_miss_count := 0, pps_count := 0, calibration_valid := False,
         last_micros := now_us, last_millis := now_ms,
         micros_wraparound_count := 0, virtual_micros_offset := 0,
         clock_reset_detected := False, reset_detection_time := 0,
         pre_reset_virtual_time := 0, reset_recovery_samples := 0,
         timing_continuity_maintained := False, clock_resets_detected := 0,
         reference_update_interval := 1000000,
         last_reference_update_sample := 0,
         timing_base_virtual_micros := 0, reference_updates_count := 0,
         sample_interval_us := 10000,
         effective_interval_us := 10000,
         phase_acc_us := 0.0,
         timing_base_micros := 0, timing_established := False,
         samples_generated := 0, sample_index := 0, next_sample_micros := 0,
         waiting_for_sync_start := False, sync_start_target_us := 0,
         sync_on_pps := False, pps_countdown := 0,
         started_on_pps := False, phase_nudge_applied := False,
         phase_alignment_active := False, phase_error_us := 0.0,
         per_sample_phase_adjust_us := 0.0, phase_adjust_samples_remaining := 0,
         pps_phase_lock_enabled := True,
         temp_coefficient_ppm_per_c := 0.0, reference_temp_c := 25.0,
         temp_compensation_enabled := False\<rparr>)"

text \<open>
  \<open>setup()\<close>, named \<open>setup_firmware\<close> because \<open>setup\<close> is a keyword of Isabelle:
  \<open>boot_ms\<close> is the \<open>millis()\<close> stored as boot id, \<open>now_us\<close> and \<open>now_ms\<close> are the
  readings of \<open>setupAdvancedTiming\<close>. The initialisation of the SPI bus and of the ADC
  is left out.
\<close>

definition setup_firmware :: "u32 \<Rightarrow> u32 \<Rightarrow> u32 \<Rightarrow> state \<Rightarrow> state" where
  "setup_firmware boot_ms now_us now_ms s =
    (let s1 = println (DEBUG ''Starting Advanced ADS1263 with PPS Timing...'') s;
         s2 = s1\<lparr>buffer_overflows := 0, last_overflow_time := 0, bytes_sent := 0,
                  samples_skipped_due_to_overflow := 0, overflow_warning_sent := False,
                  oflow_message_count := 0, last_oflow_message_time := 0,
                  oflow_report_interval_ms := 1000,
                  expected_sequence := 0, sequence_gaps_detected := 0,
                  sequence_resets_detected := 0, last_validation_time := 0,
                  validation_enabled := True,
                  throughput_warning_sent := False,
                  boot_id := boot_ms, stream_id := 0, session_header_sent := False\<rparr>;
         s3 = loadOscillatorCalibration (setupAdvancedTiming now_us now_ms s2)
     in println (DEBUG ''PPS on pin 4, scientific-grade timing when GPS available'')
          (println (READY ''Advanced ADS1263 with PPS timing ready'') s3))"

text \<open>The state after power-on and \<open>setup()\<close> with an empty persistent store.\<close>

definition booted :: state where
  "booted = setup_firmware 0 0 0 (power_on 0xFFFFFFFF 0)"


section \<open>Notions used to state the properties\<close>

text \<open>The sequence number carried by a sample record.\<close>

fun sample_seq :: "line \<Rightarrow> u16" where
  "sample_seq (SAMPLE_FULL q _ _ _ _ _ _) = q"
| "sample_seq (SAMPLE_COMPACT q _ _ _ _) = q"
| "sample_seq _ = 0"

text \<open>
  Concrete inputs: readings of a quiet moment (the transmit buffer has room, the
  counters read zero), and the booted firmware after one million samples of a stream,
  where \<open>1000000 mod 65536 = 16960\<close>.
\<close>

definition quiet_reads :: sample_reads where
  "quiet_reads = \<lparr>us_entry = 0, us_rebase = 0, rate_sps = 19200, us_stamp = 0,
      value1 = 0, value2 = 0, value3 = 0,
      tx = \<lparr>tx_free = 64, ms_check = 0, ms_oflow = 0, tx_free_oflow = 64\<rparr>\<rparr>"

definition rebase_due :: state where
  "rebase_due = booted\<lparr>streaming := True, timing_established := True,
                        sequence := 16960, sample_index := 1000000\<rparr>"

text \<open>
  Readings of a starved transmit buffer at a given time, and readings of a quiet
  moment at a given value of \<open>micros()\<close>.
\<close>

definition starved_reads :: "u32 \<Rightarrow> tx_reads" where
  "starved_reads now_ms =
     \<lparr>tx_free = 15, ms_check = now_ms, ms_oflow = now_ms, tx_free_oflow = 15\<rparr>"

definition reads_at :: "u32 \<Rightarrow> sample_reads" where
  "reads_at now_us = \<lparr>us_entry = now_us, us_rebase = now_us, rate_sps = 19200,
      us_stamp = now_us, value1 = 0, value2 = 0, value3 = 0,
      tx = \<lparr>tx_free = 64, ms_check = 0, ms_oflow = 0, tx_free_oflow = 64\<rparr>\<rparr>"


text \<open>
  A run from boot: the calibration is set to 50 ppm and a stream is started at 100 Hz
  (\<open>streaming_50ppm\<close>); the scheduler fires the first sample on time (the effective
  interval is 9999.5 microseconds, so half a microsecond stays in the accumulator),
  the stream is stopped and started again without a new rate.
\<close>

definition streaming_50ppm :: state where
  "streaming_50ppm = cmd_START_STREAM 100 0 0 (cmd_SET_CAL_PPM 50 booted)"

definition restarted :: state where
  "restarted =
     cmd_START_STREAM 0 20000 20
       (cmd_STOP_STREAM (loop_scheduler 10000 (reads_at 10000) streaming_50ppm))"

text \<open>
  One PPS edge as the firmware sees it: the interrupt stores the readings of the edge,
  and the next \<open>updateTimingSource\<close> hands the edge to \<open>processPPS\<close> and clears the
  flag (lines 465 to 468).
\<close>

definition pps_edge :: "u32 \<Rightarrow> u32 \<Rightarrow> state \<Rightarrow> state" where
  "pps_edge edge_us edge_ms s =
     (processPPS edge_ms edge_ms (pps_interrupt edge_us edge_ms s))\<lparr>pps_received := False\<rparr>"

text \<open>
  The firmware booted with a valid calibration of 0 ppm in the persistent store, then
  armed to start on the first PPS edge; the GPS delivers its first edges shortly after
  the 32-bit microsecond counter wrapped, at raw readings 500 and 1000500.
\<close>

definition calibrated_boot :: state where
  "calibrated_boot = setup_firmware 0 0 0 (power_on EEPROM_CAL_MAGIC 0)"

definition early_calibration :: state where
  "early_calibration =
     pps_edge 1000500 4295967
       (pps_edge 500 4294967 (cmd_START_STREAM_PPS 100 1 calibrated_boot))"

text \<open>
  The booted firmware armed by \<open>START_STREAM_PPS:100,2\<close>; and the firmware after one
  wrap of the microsecond counter (the virtual offset is \<open>2^32\<close>), armed by
  \<open>START_STREAM_PPS:100,1\<close>.
\<close>

definition armed_2 :: state where
  "armed_2 = cmd_START_STREAM_PPS 100 2 booted"

definition wrapped_once :: state where
  "wrapped_once =
     snd (detectClockReset 100 4294967 (snd (getVirtualMicros 4294000000 booted)))"

definition armed_1_wrapped :: state where
  "armed_1_wrapped = cmd_START_STREAM_PPS 100 1 wrapped_once"

text \<open>
  The table of the timing-quality state machine as the specification words it: state
  and accuracy as a function of \<open>pps_valid\<close>, \<open>cal_valid\<close>, the age of the last PPS
  edge in milliseconds and \<open>recent_reset\<close>.
\<close>

definition quality_table :: "bool \<Rightarrow> bool \<Rightarrow> nat \<Rightarrow> bool \<Rightarrow> TimingSource \<times> real" where
  "quality_table pps_ok cal_ok age recent_reset =
    (if pps_ok \<and> age < 1500 \<and> \<not> recent_reset then (TIMING_PPS_ACTIVE, 1.0)
     else if pps_ok \<and> age < 60000 \<and> \<not> recent_reset
       then (TIMING_PPS_HOLDOVER, 1.0 + (real age / 1000) * 0.1)
     else if cal_ok \<and> age < 300000 \<and> \<not> recent_reset
       then (TIMING_INTERNAL_CAL, 10.0 + (real age / 1000) * 0.3)
     else (TIMING_INTERNAL_RAW, if recent_reset then 2000 else 1000))"







text \<open>
  A sequence of attempted emissions: each attempt is one call of
  \<open>outputDataWithOverflowProtection\<close> with its arguments and readings. \<open>oflow_times\<close>
  lists the readings of \<open>millis()\<close> of those attempts of a run that wrote an \<open>OFLOW\<close>
  line, and \<open>spaced\<close> says that each time of a list is 1000 ms or more (as a 32-bit
  difference) after the one before, the first one after \<open>last_time\<close>.
\<close>

record emission =
  e_reads :: tx_reads
  e_seq :: u16
  e_timestamp :: u64
  e_source :: int
  e_accuracy :: real
  e_v1 :: int
  e_v2 :: int
  e_v3 :: int

definition attempt :: "emission \<Rightarrow> state \<Rightarrow> state" where
  "attempt e s = outputDataWithOverflowProtection (e_reads e) (e_seq e) (e_timestamp e)
     (e_source e) (e_accuracy e) (e_v1 e) (e_v2 e) (e_v3 e) s"

fun attempts :: "emission list \<Rightarrow> state \<Rightarrow> state" where
  "attempts [] s = s"
| "attempts (e # es) s = attempts es (attempt e s)"

fun oflow_times :: "emission list \<Rightarrow> state \<Rightarrow> u32 list" where
  "oflow_times [] s = []"
| "oflow_times (e # es) s =
     (if filter is_oflow (out (attempt e s)) = filter is_oflow (out s) then []
      else [ms_oflow (e_reads e)])
     @ oflow_times es (attempt e s)"

fun spaced :: "u32 \<Rightarrow> u32 list \<Rightarrow> bool" where
  "spaced last_time [] = True"
| "spaced last_time (t # ts) = (t - last_time \<ge> 1000 \<and> spaced t ts)"

definition starved_at :: "u32 \<Rightarrow> emission" where
  "starved_at now_ms = \<lparr>e_reads = starved_reads now_ms, e_seq = 0, e_timestamp = 0,
     e_source = 3, e_accuracy = 1000, e_v1 = 0, e_v2 = 0, e_v3 = 0\<rparr>"

text \<open>
  The first PPS edge after boot: the interrupt fires at \<open>micros() = 1000000\<close>,
  \<open>millis() = 1000\<close>. The next call of \<open>updateTimingSource\<close> reads \<open>millis() = 1000\<close>
  at its entry, and \<open>processPPS\<close>, called from it, reads \<open>millis() = 1001\<close>: the
  millisecond counter ticked between the two readings.
\<close>

definition first_edge :: state where
  "first_edge = pps_interrupt 1000000 1000 booted"

definition first_edge_tick :: tick_reads where
  "first_edge_tick =
     \<lparr>ms_entry = 1000, us_detect = 1000900, ms_detect = 1000,
      reset = \<lparr>ms_detection = 0, us_last = 0, ms_last = 0, us_virtual = 0\<rparr>,
      ms_pps = 1001, ms_session = 1001\<rparr>"

section \<open>What each function leaves unchanged\<close>

text \<open>
  Each function of the sample path is summarised by its effect on the fields that the
  scheduler and the sequence numbering depend on, and on the sample records among the
  lines written. The properties below are proved from these summaries.
\<close>

lemma getVirtualMicros_frame:
  "sequence (snd (getVirtualMicros m s)) = sequence s"
  "sample_index (snd (getVirtualMicros m s)) = sample_index s"
  "reference_update_interval (snd (getVirtualMicros m s)) = reference_update_interval s"
  "next_sample_micros (snd (getVirtualMicros m s)) = next_sample_micros s"
  "samples_generated (snd (getVirtualMicros m s)) = samples_generated s"
  "effective_interval_us (snd (getVirtualMicros m s)) = effective_interval_us s"
  "phase_acc_us (snd (getVirtualMicros m s)) = phase_acc_us s"
  "phase_alignment_active (snd (getVirtualMicros m s)) = phase_alignment_active s"
  "phase_adjust_samples_remaining (snd (getVirtualMicros m s)) = phase_adjust_samples_remaining s"
  "per_sample_phase_adjust_us (snd (getVirtualMicros m s)) = per_sample_phase_adjust_us s"
  "filter is_sample (out (snd (getVirtualMicros m s))) = filter is_sample (out s)"
  by (simp_all add: getVirtualMicros_def println_def Let_def)

lemma updateTimingReference_frame:
  "sequence (updateTimingReference m s) = sequence s"
  "sample_index (updateTimingReference m s) = 0"
  "reference_update_interval (updateTimingReference m s) = reference_update_interval s"
  "next_sample_micros (updateTimingReference m s) = fst (getVirtualMicros m s)"
  "samples_generated (updateTimingReference m s) = samples_generated s"
  "effective_interval_us (updateTimingReference m s) = effective_interval_us s"
  "phase_acc_us (updateTimingReference m s) = phase_acc_us s"
  "phase_alignment_active (updateTimingReference m s) = phase_alignment_active s"
  "phase_adjust_samples_remaining (updateTimingReference m s) = phase_adjust_samples_remaining s"
  "per_sample_phase_adjust_us (updateTimingReference m s) = per_sample_phase_adjust_us s"
  "filter is_sample (out (updateTimingReference m s)) = filter is_sample (out s)"
  by (simp_all add: updateTimingReference_def getVirtualMicros_def println_def Let_def)

lemma verifyADCThroughput_frame:
  "sequence (snd (verifyADCThroughput a s)) = sequence s"
  "sample_index (snd (verifyADCThroughput a s)) = sample_index s"
  "reference_update_interval (snd (verifyADCThroughput a s)) = reference_update_interval s"
  "next_sample_micros (snd (verifyADCThroughput a s)) = next_sample_micros s"
  "samples_generated (snd (verifyADCThroughput a s)) = samples_generated s"
  "effective_interval_us (snd (verifyADCThroughput a s)) = effective_interval_us s"
  "phase_acc_us (snd (verifyADCThroughput a s)) = phase_acc_us s"
  "phase_alignment_active (snd (verifyADCThroughput a s)) = phase_alignment_active s"
  "phase_adjust_samples_remaining (snd (verifyADCThroughput a s)) = phase_adjust_samples_remaining s"
  "per_sample_phase_adjust_us (snd (verifyADCThroughput a s)) = per_sample_phase_adjust_us s"
  "filter is_sample (out (snd (verifyADCThroughput a s))) = filter is_sample (out s)"
  by (simp_all add: verifyADCThroughput_def println_def Let_def)

lemma getPreciseTimestamp_snd:
  "snd (getPreciseTimestamp m s) = snd (getVirtualMicros m s)"
  by (simp add: getPreciseTimestamp_def split: prod.splits TimingSource.splits)

lemma validateAndCorrectSequence_frame:
  "sequence (snd (snd (validateAndCorrectSequence q s))) = sequence s"
  "sample_index (snd (snd (validateAndCorrectSequence q s))) = sample_index s"
  "reference_update_interval (snd (snd (validateAndCorrectSequence q s))) = reference_update_interval s"
  "next_sample_micros (snd (snd (validateAndCorrectSequence q s))) = next_sample_micros s"
  "samples_generated (snd (snd (validateAndCorrectSequence q s))) = samples_generated s"
  "effective_interval_us (snd (snd (validateAndCorrectSequence q s))) = effective_interval_us s"
  "phase_acc_us (snd (snd (validateAndCorrectSequence q s))) = phase_acc_us s"
  "phase_alignment_active (snd (snd (validateAndCorrectSequence q s))) = phase_alignment_active s"
  "phase_adjust_samples_remaining (snd (snd (validateAndCorrectSequence q s))) = phase_adjust_samples_remaining s"
  "per_sample_phase_adjust_us (snd (snd (validateAndCorrectSequence q s))) = per_sample_phase_adjust_us s"
  "filter is_sample (out (snd (snd (validateAndCorrectSequence q s)))) = filter is_sample (out s)"
  "fst (validateAndCorrectSequence q s) = True"
  "fst (snd (validateAndCorrectSequence q s)) = q"
  by (simp_all add: validateAndCorrectSequence_def println_def Let_def)

lemma outputDataWithOverflowProtection_frame:
  "sequence (outputDataWithOverflowProtection r q ts src acc a b c s) = sequence s"
  "sample_index (outputDataWithOverflowProtection r q ts src acc a b c s) = sample_index s"
  "reference_update_interval (outputDataWithOverflowProtection r q ts src acc a b c s) = reference_update_interval s"
  "next_sample_micros (outputDataWithOverflowProtection r q ts src acc a b c s) = next_sample_micros s"
  "samples_generated (outputDataWithOverflowProtection r q ts src acc a b c s) = samples_generated s"
  "effective_interval_us (outputDataWithOverflowProtection r q ts src acc a b c s) = effective_interval_us s"
  "phase_acc_us (outputDataWithOverflowProtection r q ts src acc a b c s) = phase_acc_us s"
  "phase_alignment_active (outputDataWithOverflowProtection r q ts src acc a b c s) = phase_alignment_active s"
  "phase_adjust_samples_remaining (outputDataWithOverflowProtection r q ts src acc a b c s) = phase_adjust_samples_remaining s"
  "per_sample_phase_adjust_us (outputDataWithOverflowProtection r q ts src acc a b c s) = per_sample_phase_adjust_us s"
  "map sample_seq (filter is_sample (out (outputDataWithOverflowProtection r q ts src acc a b c s)))
     = map sample_seq (filter is_sample (out s)) @ (if tx_free r < 20 then [] else [q])"
  by (simp_all add: outputDataWithOverflowProtection_def checkSerialBufferOverflow_def println_def Let_def)

lemmas sample_path_frames =
  getVirtualMicros_frame updateTimingReference_frame verifyADCThroughput_frame
  getPreciseTimestamp_snd validateAndCorrectSequence_frame
  outputDataWithOverflowProtection_frame

text \<open>The effect of one call of \<open>generatePreciseSample\<close> on the same fields.\<close>

lemma generatePreciseSample_samples:
  "map sample_seq (filter is_sample (out (generatePreciseSample r s)))
     = map sample_seq (filter is_sample (out s))
       @ (if tx_free (tx r) < 20 then [] else [sequence s])"
  by (simp add: generatePreciseSample_def case_prod_beta Let_def sample_path_frames)

lemma generatePreciseSample_counters:
  "sequence (generatePreciseSample r s) = word_of_int ((uint (sequence s) + 1) mod 65536)"
  "samples_generated (generatePreciseSample r s) = samples_generated s + 1"
  "sample_index (generatePreciseSample r s) =
     (if sample_index s \<ge> reference_update_interval s then 0 else sample_index s) + 1"
  by (simp_all add: generatePreciseSample_def case_prod_beta Let_def sample_path_frames)

lemma generatePreciseSample_scheduler_fields:
  "next_sample_micros (generatePreciseSample r s) =
     (if sample_index s \<ge> reference_update_interval s
      then fst (getVirtualMicros (us_rebase r) (snd (getVirtualMicros (us_entry r) s)))
      else next_sample_micros s)"
  "effective_interval_us (generatePreciseSample r s) = effective_interval_us s"
  "phase_acc_us (generatePreciseSample r s) = phase_acc_us s"
  "phase_alignment_active (generatePreciseSample r s) = phase_alignment_active s"
  "phase_adjust_samples_remaining (generatePreciseSample r s)
     = phase_adjust_samples_remaining s"
  "per_sample_phase_adjust_us (generatePreciseSample r s) = per_sample_phase_adjust_us s"
  by (simp_all add: generatePreciseSample_def case_prod_beta Let_def sample_path_frames)


section \<open>Arithmetic of the 16-bit sequence number\<close>

lemma seq_succ: "(word_of_int ((uint (q::u16) + 1) mod 65536) :: u16) = q + 1"
proof -
  have "uint (word_of_int ((uint q + 1) mod 65536) :: u16) = uint (q + 1)"
    by (simp add: uint_word_of_int_eq uint_word_ariths take_bit_eq_mod)
  then show ?thesis by (simp add: word_eq_iff_unsigned[where ?'a = int])
qed

lemma ucast_succ: "(ucast ((x::u64) + 1) :: u16) = ucast x + 1"
proof -
  have "uint (ucast (x + 1) :: u16) = uint (ucast x + 1 :: u16)"
    by (simp add: unsigned_ucast_eq uint_word_ariths take_bit_eq_mod mod_simps)
       (simp add: mod_mod_cancel)
  then show ?thesis by (simp add: word_eq_iff_unsigned[where ?'a = int])
qed

section \<open>The booted firmware\<close>

lemma booted_fields:
  "sequence booted = 0"
  "sample_index booted = 0"
  "reference_update_interval booted = 1000000"
  "sample_interval_us booted = 10000"
  "oflow_report_interval_ms booted = 1000"
  "last_oflow_message_time booted = 0"
  "buffer_overflows booted = 0"
  "samples_skipped_due_to_overflow booted = 0"
  "filter is_sample (out booted) = []"
  by (simp_all add: booted_def setup_firmware_def power_on_def setupAdvancedTiming_def
        loadOscillatorCalibration_def println_def Let_def EEPROM_CAL_MAGIC_def)

lemma booted_clock:
  "virtual_micros_offset booted = 0"
  "last_micros booted = 0"
  "timing_established booted = False"
  "streaming booted = False"
  by (simp_all add: booted_def setup_firmware_def power_on_def setupAdvancedTiming_def
        loadOscillatorCalibration_def println_def Let_def EEPROM_CAL_MAGIC_def)

lemma booted_tick:
  "pps_received booted = False"
  "last_millis booted = 0"
  "last_pps_time booted = 0"
  "clock_reset_detected booted = False"
  "reset_detection_time booted = 0"
  by (simp_all add: booted_def setup_firmware_def power_on_def setupAdvancedTiming_def
        loadOscillatorCalibration_def println_def Let_def EEPROM_CAL_MAGIC_def)

section \<open>C1: sequence number and sample index\<close>

text \<open>A stream started by \<open>START_STREAM\<close> begins with both counters at zero.\<close>

lemma start_now_counters:
  "sequence (start_now now_us session_ms s) = 0"
  "sample_index (start_now now_us session_ms s) = 0"
  by (simp_all add: start_now_def establishSamplingTiming_def sendSessionHeader_def
        case_prod_beta Let_def println_def getVirtualMicros_frame)

text \<open>
  C1, as amended. The claim is that the emitted sequence number equals
  \<open>sample_index mod 65536\<close> at every emission, also after a rebase. What the code
  guarantees is the step between rebases: if the sequence number equals the sample
  index cut to 16 bits and no rebase is due (\<open>sample_index < reference_update_interval\<close>),
  then the record written by \<open>generatePreciseSample\<close>, when back-pressure does not
  drop it, carries the sample index cut to 16 bits, the index advances by one and the
  equality holds again afterwards.
\<close>

theorem generatePreciseSample_seq_tracks_index:
  assumes "sequence s = ucast (sample_index s)"
    and "sample_index s < reference_update_interval s"
  shows "map sample_seq (filter is_sample (out (generatePreciseSample r s)))
           = map sample_seq (filter is_sample (out s))
             @ (if tx_free (tx r) < 20 then [] else [ucast (sample_index s)])
       \<and> sample_index (generatePreciseSample r s) = sample_index s + 1
       \<and> sequence (generatePreciseSample r s)
           = ucast (sample_index (generatePreciseSample r s))"
  using assms
  by (simp add: generatePreciseSample_samples generatePreciseSample_counters
        seq_succ ucast_succ not_le [symmetric])

text \<open>
  C1, witness: the first sample after boot. Both counters are zero, no rebase is due,
  the record carries sequence number 0 and both counters are 1 afterwards.
\<close>

theorem generatePreciseSample_seq_tracks_index_witness:
  "sequence booted = ucast (sample_index booted)
   \<and> sample_index booted < reference_update_interval booted
   \<and> map sample_seq (filter is_sample (out (generatePreciseSample quiet_reads booted))) = [0]
   \<and> sample_index (generatePreciseSample quiet_reads booted) = 1
   \<and> sequence (generatePreciseSample quiet_reads booted) = 1"
  using generatePreciseSample_seq_tracks_index [of booted quiet_reads]
  by (simp add: booted_fields quiet_reads_def)

text \<open>
  C1, counterexample to the claim as stated. After one million samples the sequence
  number is 16960, equal to the sample index cut to 16 bits. The next call of
  \<open>generatePreciseSample\<close> rebases first, which sets the sample index to 0 and leaves
  the sequence number alone: the record is written with sequence number 16960 while
  the sample index is 0, and afterwards the two counters are 16961 and 1.
\<close>

theorem generatePreciseSample_rebase_breaks_seq_index:
  "sequence rebase_due = ucast (sample_index rebase_due)
   \<and> sample_index (updateTimingReference (us_rebase quiet_reads)
        (snd (getVirtualMicros (us_entry quiet_reads) rebase_due))) = 0
   \<and> map sample_seq (filter is_sample (out (generatePreciseSample quiet_reads rebase_due)))
       = [16960]
   \<and> sample_index (generatePreciseSample quiet_reads rebase_due) = 1
   \<and> sequence (generatePreciseSample quiet_reads rebase_due) = 16961"
  by (simp add: generatePreciseSample_samples generatePreciseSample_counters
        updateTimingReference_frame rebase_due_def quiet_reads_def booted_fields)

section \<open>C10: the sequence validator never withholds a sample\<close>

text \<open>
  C10. For every validator state and every sequence number,
  \<open>validateAndCorrectSequence\<close> returns true and hands the sequence number back
  unchanged; it changes nothing but the expected number, the gap and reset counters
  and the serial output, to which it adds no sample record. In
  \<open>generatePreciseSample\<close> the record is then written with the sequence number the
  state held at entry, whatever the validator found; only back-pressure (fewer than
  20 free bytes) withholds it.
\<close>

theorem validateAndCorrectSequence_never_suppresses:
  "(\<exists>s'. validateAndCorrectSequence q s = (True, q, s')
       \<and> s' = s\<lparr>expected_sequence := expected_sequence s',
                 sequence_gaps_detected := sequence_gaps_detected s',
                 sequence_resets_detected := sequence_resets_detected s',
                 out := out s'\<rparr>
       \<and> filter is_sample (out s') = filter is_sample (out s))
   \<and> map sample_seq (filter is_sample (out (generatePreciseSample r s)))
       = map sample_seq (filter is_sample (out s))
         @ (if tx_free (tx r) < 20 then [] else [sequence s])"
  by (simp add: generatePreciseSample_samples)
     (simp add: validateAndCorrectSequence_def println_def Let_def)

text \<open>
  C10, witness: after boot the validator expects 0 and the sequence number is 5. The
  validator reports the gap, returns true and leaves 5 in place, and the record is
  written with sequence number 5.
\<close>

theorem validateAndCorrectSequence_never_suppresses_witness:
  "fst (validateAndCorrectSequence 5 (booted\<lparr>sequence := 5\<rparr>))
   \<and> fst (snd (validateAndCorrectSequence 5 (booted\<lparr>sequence := 5\<rparr>))) = 5
   \<and> map sample_seq (filter is_sample
         (out (generatePreciseSample quiet_reads (booted\<lparr>sequence := 5\<rparr>)))) = [5]"
  using validateAndCorrectSequence_never_suppresses
    [of 5 "booted\<lparr>sequence := 5\<rparr>" quiet_reads]
  by (auto simp add: booted_fields quiet_reads_def)


section \<open>Unsigned arithmetic on the 64-bit virtual time\<close>





lemma next_boundary:
  fixes v I :: "64 word"
  assumes "I \<noteq> 0" and "I \<le> 4294967296" and "unat v + unat I < 2 ^ 64"
  shows "unat (v + (I - ucast (ucast (v mod I) :: 32 word))) = (unat v div unat I + 1) * unat I"
proof -
  let ?r = "v mod I"
  have I0: "0 < unat I" using assms(1) by (simp add: unat_gt_0)
  have I32: "unat I \<le> 4294967296" using assms(2) by (simp add: word_le_nat_alt)
  have r: "unat ?r = unat v mod unat I" by (simp add: unat_mod)
  have rlt: "unat ?r < unat I" using I0 by (simp add: r)
  have "unat (ucast (ucast ?r :: 32 word) :: 64 word) = unat ?r"
    using rlt I32 by (simp add: unsigned_ucast_eq take_bit_eq_mod unat_mod)
  then have rt: "(ucast (ucast ?r :: 32 word) :: 64 word) = ?r"
    by (simp add: word_eq_iff_unsigned[where ?'a = nat])
  have le: "?r \<le> I" using rlt by (simp add: word_le_nat_alt)
  have sub: "unat (I - ?r) = unat I - unat ?r" using le by (simp add: unat_sub)
  have "unat v + unat (I - ?r) < 2 ^ 64" using assms(3) sub by simp
  then have "unat (v + (I - ?r)) = unat v + unat (I - ?r)"
    by (simp add: unat_add_lem [THEN iffD1])
  also have "\<dots> = unat v + unat I - unat v mod unat I" using sub r rlt by simp
  also have "\<dots> = (unat v div unat I + 1) * unat I"
  proof -
    have "unat v - unat v mod unat I = unat v div unat I * unat I"
      by (simp add: minus_mod_eq_div_mult)
    moreover have "unat v + unat I - unat v mod unat I
        = (unat v - unat v mod unat I) + unat I"
      using mod_less_eq_dividend [of "unat v" "unat I"] by arith
    ultimately show ?thesis by simp
  qed
  finally show ?thesis by (simp add: rt)
qed

section \<open>C3: the virtual clock\<close>






section \<open>C7: back-pressure\<close>

lemma output_step:
  "map sample_seq (filter is_sample (out (outputDataWithOverflowProtection r q ts src acc a b c s)))
     = map sample_seq (filter is_sample (out s)) @ (if tx_free r < 20 then [] else [q])"
  "buffer_overflows (outputDataWithOverflowProtection r q ts src acc a b c s)
     = buffer_overflows s + (if tx_free r < 20 then 1 else 0)"
  "samples_skipped_due_to_overflow (outputDataWithOverflowProtection r q ts src acc a b c s)
     = samples_skipped_due_to_overflow s + (if tx_free r < 20 then 1 else 0)"
  "filter is_oflow (out (outputDataWithOverflowProtection r q ts src acc a b c s))
     = filter is_oflow (out s) @
       (if tx_free r < 20 \<and> ms_oflow r - last_oflow_message_time s \<ge> oflow_report_interval_ms s
        then [OFLOW (samples_skipped_due_to_overflow s + 1) (buffer_overflows s + 1)
                (tx_free_oflow r)]
        else [])"
  "last_oflow_message_time (outputDataWithOverflowProtection r q ts src acc a b c s)
     = (if tx_free r < 20 \<and> ms_oflow r - last_oflow_message_time s \<ge> oflow_report_interval_ms s
        then ms_oflow r else last_oflow_message_time s)"
  "oflow_report_interval_ms (outputDataWithOverflowProtection r q ts src acc a b c s)
     = oflow_report_interval_ms s"
  "overflow_warning_sent (outputDataWithOverflowProtection r q ts src acc a b c s)
     = (if tx_free r < 20 then True else if tx_free r > 50 then False
        else overflow_warning_sent s)"
  by (simp_all add: outputDataWithOverflowProtection_def checkSerialBufferOverflow_def
        println_def Let_def)

lemma attempt_oflow:
  "filter is_oflow (out (attempt e s)) = filter is_oflow (out s) @
     (if tx_free (e_reads e) < 20
         \<and> ms_oflow (e_reads e) - last_oflow_message_time s \<ge> oflow_report_interval_ms s
      then [OFLOW (samples_skipped_due_to_overflow s + 1) (buffer_overflows s + 1)
              (tx_free_oflow (e_reads e))]
      else [])"
  "last_oflow_message_time (attempt e s)
     = (if tx_free (e_reads e) < 20
           \<and> ms_oflow (e_reads e) - last_oflow_message_time s \<ge> oflow_report_interval_ms s
        then ms_oflow (e_reads e) else last_oflow_message_time s)"
  "oflow_report_interval_ms (attempt e s) = oflow_report_interval_ms s"
  by (simp_all add: attempt_def output_step)

text \<open>
  Over any run of attempts, every \<open>OFLOW\<close> line is written 1000 ms or more after the
  one before it, and the run writes as many \<open>OFLOW\<close> lines as \<open>oflow_times\<close> lists.
\<close>

lemma oflow_run:
  "oflow_report_interval_ms s = 1000 \<Longrightarrow>
   spaced (last_oflow_message_time s) (oflow_times es s)
   \<and> length (filter is_oflow (out (attempts es s)))
       = length (filter is_oflow (out s)) + length (oflow_times es s)"
proof (induction es arbitrary: s)
  case Nil
  then show ?case by simp
next
  case (Cons e es)
  have iv: "oflow_report_interval_ms (attempt e s) = 1000"
    using Cons.prems by (simp add: attempt_oflow)
  note ih = Cons.IH [OF iv]
  show ?case
  proof (cases "tx_free (e_reads e) < 20
      \<and> ms_oflow (e_reads e) - last_oflow_message_time s \<ge> 1000")
    case True
    then show ?thesis
      using ih Cons.prems by (simp add: attempt_oflow)
  next
    case False
    then show ?thesis
      using ih Cons.prems by (auto simp add: attempt_oflow)
  qed
qed

text \<open>
  C7. On every call of \<open>outputDataWithOverflowProtection\<close> (with the report interval
  of 1000 ms that \<open>setup()\<close> stores): the sample record is written exactly when
  \<open>tx_available()\<close> is 20 or more; below 20 the overflow and the skipped-sample
  counters go up by one and an \<open>OFLOW\<close> line is written in place of the sample when
  1000 ms or more have passed since the last \<open>OFLOW\<close> line. The time of the last
  \<open>OFLOW\<close> line becomes the time of this attempt when the line is written and stays
  as it was otherwise, and the report interval stays 1000 ms; so a second attempt less
  than 1000 ms after a reported one writes no \<open>OFLOW\<close> line, and over any sequence
  \<open>es\<close> of attempts every \<open>OFLOW\<close> line is written 1000 ms or more (as a difference
  of 32-bit millisecond readings) after the one before it. Above 50 free bytes the
  one-shot overflow warning is armed again.
\<close>

theorem outputDataWithOverflowProtection_backpressure:
  assumes "oflow_report_interval_ms s = 1000"
  shows
  "(let s' = outputDataWithOverflowProtection r q ts src acc a b c s;
        dropped = (tx_free r < 20);
        report = (dropped \<and> ms_oflow r - last_oflow_message_time s \<ge> 1000);
        s'' = outputDataWithOverflowProtection r2 q2 ts2 src2 acc2 a2 b2 c2 s'
    in map sample_seq (filter is_sample (out s'))
         = map sample_seq (filter is_sample (out s)) @ (if dropped then [] else [q])
     \<and> buffer_overflows s' = buffer_overflows s + (if dropped then 1 else 0)
     \<and> samples_skipped_due_to_overflow s'
         = samples_skipped_due_to_overflow s + (if dropped then 1 else 0)
     \<and> filter is_oflow (out s') = filter is_oflow (out s) @
          (if report then [OFLOW (samples_skipped_due_to_overflow s + 1)
                             (buffer_overflows s + 1) (tx_free_oflow r)] else [])
     \<and> last_oflow_message_time s'
         = (if report then ms_oflow r else last_oflow_message_time s)
     \<and> oflow_report_interval_ms s' = 1000
     \<and> (report \<and> ms_oflow r2 - ms_oflow r < 1000 \<longrightarrow>
            filter is_oflow (out s'') = filter is_oflow (out s'))
     \<and> overflow_warning_sent s'
         = (if dropped then True else if tx_free r > 50 then False
            else overflow_warning_sent s))
   \<and> spaced (last_oflow_message_time s) (oflow_times es s)
   \<and> length (filter is_oflow (out (attempts es s)))
       = length (filter is_oflow (out s)) + length (oflow_times es s)"
proof -
  have step: "(let s' = outputDataWithOverflowProtection r q ts src acc a b c s;
        dropped = (tx_free r < 20);
        report = (dropped \<and> ms_oflow r - last_oflow_message_time s \<ge> 1000);
        s'' = outputDataWithOverflowProtection r2 q2 ts2 src2 acc2 a2 b2 c2 s'
    in map sample_seq (filter is_sample (out s'))
         = map sample_seq (filter is_sample (out s)) @ (if dropped then [] else [q])
     \<and> buffer_overflows s' = buffer_overflows s + (if dropped then 1 else 0)
     \<and> samples_skipped_due_to_overflow s'
         = samples_skipped_due_to_overflow s + (if dropped then 1 else 0)
     \<and> filter is_oflow (out s') = filter is_oflow (out s) @
          (if report then [OFLOW (samples_skipped_due_to_overflow s + 1)
                             (buffer_overflows s + 1) (tx_free_oflow r)] else [])
     \<and> last_oflow_message_time s'
         = (if report then ms_oflow r else last_oflow_message_time s)
     \<and> oflow_report_interval_ms s' = 1000
     \<and> (report \<and> ms_oflow r2 - ms_oflow r < 1000 \<longrightarrow>
            filter is_oflow (out s'') = filter is_oflow (out s'))
     \<and> overflow_warning_sent s'
         = (if dropped then True else if tx_free r > 50 then False
            else overflow_warning_sent s))"
    using assms by (auto simp add: output_step Let_def not_less)
  show ?thesis
    using step oflow_run [OF assms, of es] by simp
qed

text \<open>
  C7, witness: after boot the buffer is starved at 5000 ms and at 5500 ms. The first
  attempt drops the sample and writes \<open>OFLOW:1,1,15\<close>; the second writes no further
  \<open>OFLOW\<close> line. In the run of four starved attempts at 5000, 5500, 5600 and 6000 ms
  the \<open>OFLOW\<close> lines are written at 5000 and at 6000 ms.
\<close>

theorem outputDataWithOverflowProtection_backpressure_witness:
  "oflow_report_interval_ms booted = 1000
   \<and> filter is_oflow (out (outputDataWithOverflowProtection (starved_reads 5000) 7 0 3 1000 0 0 0 booted))
       = filter is_oflow (out booted) @ [OFLOW 1 1 15]
   \<and> filter is_oflow (out (outputDataWithOverflowProtection (starved_reads 5500) 8 0 3 1000 0 0 0
        (outputDataWithOverflowProtection (starved_reads 5000) 7 0 3 1000 0 0 0 booted)))
       = filter is_oflow (out booted) @ [OFLOW 1 1 15]
   \<and> map sample_seq (filter is_sample (out (outputDataWithOverflowProtection (starved_reads 5000) 7 0 3 1000 0 0 0 booted))) = []
   \<and> oflow_times [starved_at 5000, starved_at 5500, starved_at 5600, starved_at 6000] booted
       = [5000, 6000]
   \<and> spaced (last_oflow_message_time booted) [5000, 6000]"
  using outputDataWithOverflowProtection_backpressure
    [of booted "starved_reads 5000" 7 0 3 1000 0 0 0 "starved_reads 5500" 8 0 3 1000 0 0 0
        "[starved_at 5000, starved_at 5500, starved_at 5600, starved_at 6000]"]
  by (simp add: booted_fields starved_reads_def starved_at_def Let_def attempt_oflow)

section \<open>C8: calibration persistence\<close>

text \<open>
  C8. For every calibration value with \<open>|ppm| \<le> 200\<close>: after
  \<open>saveOscillatorCalibration\<close>, \<open>loadOscillatorCalibration\<close> run on any state whose
  persistent store holds what was saved (the same state, or the state after a power
  cycle) yields the same ppm value and marks the calibration valid.
\<close>

theorem calibration_save_load_roundtrip:
  assumes "\<bar>oscillator_calibration_ppm s\<bar> \<le> 200"
    and "eeprom_magic t = eeprom_magic (saveOscillatorCalibration s)"
    and "eeprom_ppm t = eeprom_ppm (saveOscillatorCalibration s)"
  shows "oscillator_calibration_ppm (loadOscillatorCalibration t)
           = oscillator_calibration_ppm s
       \<and> calibration_valid (loadOscillatorCalibration t)"
  using assms
  by (simp add: saveOscillatorCalibration_def loadOscillatorCalibration_def println_def Let_def)

text \<open>
  C8, witness: 12.5 ppm is saved, the device is power-cycled and \<open>setup()\<close> loads the
  value again.
\<close>

theorem calibration_save_load_roundtrip_witness:
  "\<bar>oscillator_calibration_ppm (booted\<lparr>oscillator_calibration_ppm := 12.5\<rparr>)\<bar> \<le> 200
   \<and> oscillator_calibration_ppm
         (loadOscillatorCalibration
            (setupAdvancedTiming 0 0
               (power_on
                  (eeprom_magic (saveOscillatorCalibration
                     (booted\<lparr>oscillator_calibration_ppm := 12.5\<rparr>)))
                  (eeprom_ppm (saveOscillatorCalibration
                     (booted\<lparr>oscillator_calibration_ppm := 12.5\<rparr>)))))) = 12.5
   \<and> calibration_valid
         (loadOscillatorCalibration
            (setupAdvancedTiming 0 0
               (power_on
                  (eeprom_magic (saveOscillatorCalibration
                     (booted\<lparr>oscillator_calibration_ppm := 12.5\<rparr>)))
                  (eeprom_ppm (saveOscillatorCalibration
                     (booted\<lparr>oscillator_calibration_ppm := 12.5\<rparr>))))))"
  using calibration_save_load_roundtrip
    [of "booted\<lparr>oscillator_calibration_ppm := 12.5\<rparr>"
        "setupAdvancedTiming 0 0
           (power_on
              (eeprom_magic (saveOscillatorCalibration
                 (booted\<lparr>oscillator_calibration_ppm := 12.5\<rparr>)))
              (eeprom_ppm (saveOscillatorCalibration
                 (booted\<lparr>oscillator_calibration_ppm := 12.5\<rparr>))))"]
  by (simp add: setupAdvancedTiming_def power_on_def println_def)

section \<open>C6: the single-shot scheduler\<close>





lemma getVirtualMicros_ignores:
  "fst (getVirtualMicros m (s\<lparr>effective_interval_us := e\<rparr>)) = fst (getVirtualMicros m s)"
  "fst (getVirtualMicros m (s\<lparr>next_sample_micros := n\<rparr>)) = fst (getVirtualMicros m s)"
  "fst (getVirtualMicros m (s\<lparr>next_sample_micros := n, effective_interval_us := e\<rparr>)) = fst (getVirtualMicros m s)"
  by (simp_all add: getVirtualMicros_def println_def Let_def)



















lemma streaming_50ppm_fields:
  "\<not> waiting_for_sync_start streaming_50ppm"
  "streaming streaming_50ppm"
  "timing_established streaming_50ppm"
  "oscillator_calibration_ppm streaming_50ppm = 50"
  "phase_acc_us streaming_50ppm = 0"
  "\<not> phase_alignment_active streaming_50ppm"
  "sample_index streaming_50ppm = 0"
  "reference_update_interval streaming_50ppm = 1000000"
  "next_sample_micros streaming_50ppm = 10000"
  "sample_interval_us streaming_50ppm = 10000"
  "virtual_micros_offset streaming_50ppm = 0"
  "last_micros streaming_50ppm = 0"
  by (simp_all add: streaming_50ppm_def cmd_START_STREAM_def start_now_def
        cmd_SET_CAL_PPM_def clampOscillatorCalibration_def saveOscillatorCalibration_def
        isRateChangeAllowed_def establishSamplingTiming_def sendSessionHeader_def
        getVirtualMicros_def c_trunc_def booted_def setup_firmware_def power_on_def
        setupAdvancedTiming_def loadOscillatorCalibration_def println_def Let_def
        EEPROM_CAL_MAGIC_def)







section \<open>C9: establishing the sampling grid\<close>

lemma getVirtualMicros_interval:
  "sample_interval_us (snd (getVirtualMicros m s)) = sample_interval_us s"
  by (simp add: getVirtualMicros_def println_def Let_def)

text \<open>
  C9, as amended. After \<open>establishSamplingTiming\<close> the timing base is the next
  multiple of the sample interval strictly above the current virtual time,
  \<open>next_sample_micros\<close> equals that base and \<open>sample_index\<close> is 0; the fractional
  accumulator \<open>phase_acc_us\<close> is left as it was. The interval is not zero and fits
  the 32 bits to which the function cuts the remainder, and the sum stays in 64 bits.
\<close>

theorem establishSamplingTiming_grid:
  assumes "sample_interval_us s \<noteq> 0"
    and "sample_interval_us s \<le> 4294967296"
    and "unat (fst (getVirtualMicros m s)) + unat (sample_interval_us s) < 2 ^ 64"
  shows "(let s' = establishSamplingTiming m s;
              now = unat (fst (getVirtualMicros m s));
              interval = unat (sample_interval_us s);
              base = unat (timing_base_micros s')
          in base = (now div interval + 1) * interval
           \<and> interval dvd base \<and> now < base \<and> base \<le> now + interval
           \<and> next_sample_micros s' = timing_base_micros s'
           \<and> sample_index s' = 0
           \<and> timing_established s'
           \<and> phase_acc_us s' = phase_acc_us s)"
proof -
  let ?v = "fst (getVirtualMicros m s)"
  let ?I = "sample_interval_us s"
  have base: "timing_base_micros (establishSamplingTiming m s)
      = ?v + (?I - ucast (ucast (?v mod ?I) :: 32 word))"
    by (simp add: establishSamplingTiming_def case_prod_beta Let_def println_def getVirtualMicros_interval)
  have rest: "next_sample_micros (establishSamplingTiming m s)
        = timing_base_micros (establishSamplingTiming m s)"
      "sample_index (establishSamplingTiming m s) = 0"
      "timing_established (establishSamplingTiming m s)"
      "phase_acc_us (establishSamplingTiming m s) = phase_acc_us s"
    by (simp_all add: establishSamplingTiming_def case_prod_beta Let_def println_def
          getVirtualMicros_frame)
  have I0: "0 < unat ?I" using assms(1) by (simp add: unat_gt_0)
  have eq: "unat (timing_base_micros (establishSamplingTiming m s))
      = (unat ?v div unat ?I + 1) * unat ?I"
    unfolding base using assms by (rule next_boundary)
  have lt: "unat ?v < (unat ?v div unat ?I + 1) * unat ?I"
    using I0 by (simp add: dividend_less_div_times)
  have le: "(unat ?v div unat ?I + 1) * unat ?I \<le> unat ?v + unat ?I"
    by simp
  show ?thesis
    using eq lt le rest by (simp add: Let_def)
qed

text \<open>
  C9, witness: after boot, at virtual time 12345 and an interval of 10000 the base and
  the next sample are at 20000.
\<close>

theorem establishSamplingTiming_grid_witness:
  "sample_interval_us booted \<noteq> 0
   \<and> sample_interval_us booted \<le> 4294967296
   \<and> unat (fst (getVirtualMicros 12345 booted)) + unat (sample_interval_us booted) < 2 ^ 64
   \<and> unat (timing_base_micros (establishSamplingTiming 12345 booted)) = 20000
   \<and> next_sample_micros (establishSamplingTiming 12345 booted)
       = timing_base_micros (establishSamplingTiming 12345 booted)
   \<and> sample_index (establishSamplingTiming 12345 booted) = 0"
  using establishSamplingTiming_grid [of booted 12345]
  by (simp add: Let_def getVirtualMicros_def println_def booted_clock booted_fields)

lemma advance_schedule_phase_acc:
  "\<not> phase_alignment_active s \<Longrightarrow>
   phase_acc_us (advance_schedule now s)
     = effective_interval_us s + phase_acc_us s
       - real_of_int (c_trunc (effective_interval_us s + phase_acc_us s))"
  by (simp add: advance_schedule_def Let_def println_def)

lemma loop_streaming_fires:
  assumes "streaming s" "timing_established s" "next_sample_micros s \<noteq> 0"
    and "0 \<le> sint (fst (getVirtualMicros us_now s) - next_sample_micros s)"
  shows "loop_streaming us_now r s
     = advance_schedule (fst (getVirtualMicros us_now s))
         (generatePreciseSample r (snd (getVirtualMicros us_now
            (s\<lparr>effective_interval_us := real (unat (sample_interval_us s))
                    * (1.0 - (oscillator_calibration_ppm s / 1000000))\<rparr>))))"
  using assms
  by (simp add: loop_streaming_def case_prod_beta Let_def getVirtualMicros_frame
        getVirtualMicros_ignores)

lemma first_sample_50ppm:
  "phase_acc_us (loop_scheduler 10000 (reads_at 10000) streaming_50ppm) = 1 / 2"
proof -
  have now: "fst (getVirtualMicros 10000 streaming_50ppm) = 10000"
    by (simp add: getVirtualMicros_def println_def Let_def streaming_50ppm_fields)
  have fires: "loop_streaming 10000 (reads_at 10000) streaming_50ppm
     = advance_schedule 10000
         (generatePreciseSample (reads_at 10000) (snd (getVirtualMicros 10000
            (streaming_50ppm\<lparr>effective_interval_us := 19999 / 2\<rparr>))))"
    using loop_streaming_fires [of streaming_50ppm 10000 "reads_at 10000"]
    by (simp add: streaming_50ppm_fields now)
  show ?thesis
    by (simp add: loop_scheduler_def fires advance_schedule_phase_acc
          generatePreciseSample_scheduler_fields getVirtualMicros_frame
          streaming_50ppm_fields c_trunc_def)
qed

lemma cmd_STOP_STREAM_fields:
  "\<not> streaming (cmd_STOP_STREAM s)"
  "phase_acc_us (cmd_STOP_STREAM s) = phase_acc_us s"
  by (simp_all add: cmd_STOP_STREAM_def println_def)

lemma cmd_START_STREAM_restart:
  assumes "\<not> streaming s"
  shows "phase_acc_us (cmd_START_STREAM 0 us ms s) = phase_acc_us s"
    and "sample_index (cmd_START_STREAM 0 us ms s) = 0"
    and "timing_established (cmd_START_STREAM 0 us ms s)"
    and "streaming (cmd_START_STREAM 0 us ms s)"
  using assms
  by (simp_all add: cmd_START_STREAM_def start_now_def establishSamplingTiming_def
        sendSessionHeader_def case_prod_beta Let_def println_def getVirtualMicros_frame)

text \<open>
  C9, counterexample to the claim as stated. In the run \<open>restarted\<close> the second
  \<open>START_STREAM\<close> establishes the timing anew: the sample index is 0 and the timing
  is established, but the accumulator still holds the half microsecond left by the
  sample of the first stream (in the exact arithmetic of the model; a value close to
  one half, and not zero, in floating point).
\<close>

theorem establishSamplingTiming_keeps_phase_acc:
  "phase_acc_us restarted = 1 / 2
   \<and> sample_index restarted = 0
   \<and> timing_established restarted"
  by (simp add: restarted_def cmd_START_STREAM_restart cmd_STOP_STREAM_fields
        first_sample_50ppm)

section \<open>The discipline engine on a PPS edge\<close>

lemma begin_streaming_at_pps_fields:
  "streaming (begin_streaming_at_pps h p ms ms2 s)"
  "timing_established (begin_streaming_at_pps h p ms ms2 s)"
  "timing_base_micros (begin_streaming_at_pps h p ms ms2 s) = ucast p"
  "next_sample_micros (begin_streaming_at_pps h p ms ms2 s) = ucast p"
  "sync_on_pps (begin_streaming_at_pps h p ms ms2 s) = (\<not> h \<and> sync_on_pps s)"
  "pps_countdown (begin_streaming_at_pps h p ms ms2 s) = pps_countdown s"
  "pps_count (begin_streaming_at_pps h p ms ms2 s) = pps_count s"
  "pps_valid (begin_streaming_at_pps h p ms ms2 s) = pps_valid s"
  "calibration_valid (begin_streaming_at_pps h p ms ms2 s) = calibration_valid s"
  "cal_base_micros (begin_streaming_at_pps h p ms ms2 s) = cal_base_micros s"
  "clock_reset_detected (begin_streaming_at_pps h p ms ms2 s) = clock_reset_detected s"
  "oscillator_calibration_ppm (begin_streaming_at_pps h p ms ms2 s)
     = oscillator_calibration_ppm s"
  "virtual_micros_offset (begin_streaming_at_pps h p ms ms2 s) = virtual_micros_offset s"
  by (simp_all add: begin_streaming_at_pps_def sendSessionHeader_def println_def Let_def)

lemma clampOscillatorCalibration_frame:
  "streaming (clampOscillatorCalibration s) = streaming s"
  "timing_established (clampOscillatorCalibration s) = timing_established s"
  "sync_on_pps (clampOscillatorCalibration s) = sync_on_pps s"
  "pps_countdown (clampOscillatorCalibration s) = pps_countdown s"
  "pps_count (clampOscillatorCalibration s) = pps_count s"
  "pps_valid (clampOscillatorCalibration s) = pps_valid s"
  "clock_reset_detected (clampOscillatorCalibration s) = clock_reset_detected s"
  "virtual_micros_offset (clampOscillatorCalibration s) = virtual_micros_offset s"
  by (simp_all add: clampOscillatorCalibration_def println_def)

lemma saveOscillatorCalibration_frame:
  "streaming (saveOscillatorCalibration s) = streaming s"
  "timing_established (saveOscillatorCalibration s) = timing_established s"
  "sync_on_pps (saveOscillatorCalibration s) = sync_on_pps s"
  "pps_countdown (saveOscillatorCalibration s) = pps_countdown s"
  "pps_count (saveOscillatorCalibration s) = pps_count s"
  "pps_valid (saveOscillatorCalibration s) = pps_valid s"
  "clock_reset_detected (saveOscillatorCalibration s) = clock_reset_detected s"
  "virtual_micros_offset (saveOscillatorCalibration s) = virtual_micros_offset s"
  by (simp_all add: saveOscillatorCalibration_def println_def)

lemma pps_calibrate_frame:
  "streaming (pps_calibrate p s) = streaming s"
  "timing_established (pps_calibrate p s) = timing_established s"
  "sync_on_pps (pps_calibrate p s) = sync_on_pps s"
  "pps_countdown (pps_calibrate p s) = pps_countdown s"
  "pps_count (pps_calibrate p s) = pps_count s"
  "pps_valid (pps_calibrate p s) = pps_valid s"
  "clock_reset_detected (pps_calibrate p s) = clock_reset_detected s"
  "virtual_micros_offset (pps_calibrate p s) = virtual_micros_offset s"
  by (simp_all add: pps_calibrate_def Let_def println_def
        clampOscillatorCalibration_frame saveOscillatorCalibration_frame)

lemma pps_calibrate_initial:
  assumes "1 < pps_count s" and "pps_count s < 10" and "calibration_valid s"
    and "\<not> clock_reset_detected s"
    and "\<bar>(real (unat (ucast p - cal_base_micros s)) - 1000000) / 1000000 * 1000000\<bar> < 1000"
  shows "oscillator_calibration_ppm (pps_calibrate p s)
      = - ((real (unat (ucast p - cal_base_micros s)) - 1000000) / 1000000 * 1000000)"
  using assms by (simp add: pps_calibrate_def println_def Let_def)

lemma pps_phase_idle:
  "\<not> streaming s \<Longrightarrow> pps_phase_nudge p s = s"
  "\<not> streaming s \<Longrightarrow> pps_phase_lock p s = s"
  by (simp_all add: pps_phase_nudge_def pps_phase_lock_def)

lemma pps_phase_frame:
  "oscillator_calibration_ppm (pps_phase_nudge p s) = oscillator_calibration_ppm s"
  "oscillator_calibration_ppm (pps_phase_lock p s) = oscillator_calibration_ppm s"
  "pps_count (pps_phase_nudge p s) = pps_count s"
  "pps_count (pps_phase_lock p s) = pps_count s"
  "sync_on_pps (pps_phase_nudge p s) = sync_on_pps s"
  "sync_on_pps (pps_phase_lock p s) = sync_on_pps s"
  "clock_reset_detected (pps_phase_nudge p s) = clock_reset_detected s"
  "clock_reset_detected (pps_phase_lock p s) = clock_reset_detected s"
  by (simp_all add: pps_phase_nudge_def pps_phase_lock_def println_def Let_def)

lemma pps_discipline_starts:
  assumes "\<not> clock_reset_detected s" and "\<not> pps_valid s" and "\<not> streaming s"
    and "sync_on_pps s" and "pps_countdown s = 1"
  shows "streaming (pps_discipline p ms ms2 s)"
    and "timing_established (pps_discipline p ms ms2 s)"
    and "timing_base_micros (pps_discipline p ms ms2 s) = ucast p"
    and "pps_count (pps_discipline p ms ms2 s) = pps_count s"
  using assms
  by (simp_all add: pps_discipline_def Let_def pps_calibrate_frame pps_phase_idle
        begin_streaming_at_pps_fields println_def)

lemma pps_discipline_calibrates:
  assumes "\<not> clock_reset_detected s" and "\<not> pps_valid s" and "\<not> sync_on_pps s"
  shows "oscillator_calibration_ppm (pps_discipline p ms ms2 s)
      = oscillator_calibration_ppm (pps_calibrate p s)"
    and "pps_count (pps_discipline p ms ms2 s) = pps_count s"
  using assms
  by (simp_all add: pps_discipline_def Let_def pps_calibrate_frame pps_phase_frame println_def)

lemma booted_pps:
  "\<not> streaming booted" "\<not> sync_on_pps booted" "pps_count booted = 0"
  "\<not> pps_valid booted" "\<not> clock_reset_detected booted"
  "virtual_micros_offset booted = 0" "last_micros booted = 0"
  by (simp_all add: booted_def setup_firmware_def power_on_def setupAdvancedTiming_def
        loadOscillatorCalibration_def println_def Let_def EEPROM_CAL_MAGIC_def)

lemma calibrated_boot_fields:
  "\<not> streaming calibrated_boot" "\<not> sync_on_pps calibrated_boot"
  "pps_count calibrated_boot = 0" "\<not> pps_valid calibrated_boot"
  "\<not> clock_reset_detected calibrated_boot" "calibration_valid calibrated_boot"
  "cal_base_micros calibrated_boot = 0" "oscillator_calibration_ppm calibrated_boot = 0"
  by (simp_all add: calibrated_boot_def setup_firmware_def power_on_def
        setupAdvancedTiming_def loadOscillatorCalibration_def println_def Let_def
        EEPROM_CAL_MAGIC_def)

lemma wrapped_once_fields:
  "\<not> streaming wrapped_once" "\<not> sync_on_pps wrapped_once" "pps_count wrapped_once = 0"
  "\<not> pps_valid wrapped_once" "\<not> clock_reset_detected wrapped_once"
  "virtual_micros_offset wrapped_once = 4294967296"
  by (simp_all add: wrapped_once_def detectClockReset_def getVirtualMicros_def println_def
        Let_def booted_pps)

lemma cmd_START_STREAM_PPS_arms:
  assumes "\<not> streaming s" and "0 < rate" and "rate \<le> 1000" and "1 \<le> n" and "n \<le> 5"
  shows "sync_on_pps (cmd_START_STREAM_PPS rate n s)"
    and "pps_countdown (cmd_START_STREAM_PPS rate n s) = word_of_int n"
    and "streaming (cmd_START_STREAM_PPS rate n s) = streaming s"
    and "pps_count (cmd_START_STREAM_PPS rate n s) = pps_count s"
    and "pps_valid (cmd_START_STREAM_PPS rate n s) = pps_valid s"
    and "clock_reset_detected (cmd_START_STREAM_PPS rate n s) = clock_reset_detected s"
    and "calibration_valid (cmd_START_STREAM_PPS rate n s) = calibration_valid s"
    and "cal_base_micros (cmd_START_STREAM_PPS rate n s) = cal_base_micros s"
    and "virtual_micros_offset (cmd_START_STREAM_PPS rate n s) = virtual_micros_offset s"
  using assms by (simp_all add: cmd_START_STREAM_PPS_def println_def)

lemma processPPS_cases:
  "sync_on_pps s \<Longrightarrow> pps_countdown s = 1 \<Longrightarrow>
     processPPS ms ms2 s = begin_streaming_at_pps True (pps_micros s) ms ms2
       (s\<lparr>pps_count := pps_count s + 1, pps_countdown := 0\<rparr>)"
  "sync_on_pps s \<Longrightarrow> pps_countdown s = 2 \<Longrightarrow>
     processPPS ms ms2 s = pps_discipline (pps_micros s) ms ms2
       (s\<lparr>pps_count := pps_count s + 1, pps_countdown := 1\<rparr>)"
  "\<not> sync_on_pps s \<Longrightarrow>
     processPPS ms ms2 s = pps_discipline (pps_micros s) ms ms2
       (s\<lparr>pps_count := pps_count s + 1\<rparr>)"
  by (simp_all add: processPPS_def Let_def)

section \<open>C5: the timing-quality state machine\<close>

text \<open>
  The first PPS edge after boot, processed one millisecond after the entry of
  \<open>updateTimingSource\<close>: \<open>processPPS\<close> accepts the edge and stores its own, later
  reading of \<open>millis()\<close> as \<open>last_pps_time\<close>.
\<close>

lemma pps_calibrate_skips:
  "\<not> 1 < pps_count s \<Longrightarrow> pps_calibrate p s = s"
  by (simp add: pps_calibrate_def)

lemma pps_discipline_first_edge:
  assumes "\<not> clock_reset_detected s" and "\<not> pps_valid s" and "\<not> streaming s"
    and "\<not> sync_on_pps s" and "\<not> 1 < pps_count s"
  shows "pps_discipline p ms ms2 s
     = (println (DEBUG ''GPS PPS acquired'') s)
         \<lparr>pps_valid := True, calibration_valid := True, cal_base_micros := ucast p,
          cal_base_millis := ms, last_pps_time := ms\<rparr>"
  using assms
  by (simp add: pps_discipline_def Let_def pps_calibrate_skips pps_phase_idle println_def)

lemma booted_warnings:
  "\<not> degradation_warned booted" "\<not> reset_warned booted" "last_micros booted = 0"
  by (simp_all add: booted_def setup_firmware_def power_on_def setupAdvancedTiming_def
        loadOscillatorCalibration_def println_def Let_def EEPROM_CAL_MAGIC_def)

lemma first_edge_events:
  "updateTimingSource_events first_edge_tick first_edge
     = (println (DEBUG ''GPS PPS acquired'')
          (booted\<lparr>pps_received := True, pps_micros := 1000000, last_pps_time := 1000,
                  last_micros := 1000900, last_millis := 1000, pps_count := 1\<rparr>))
         \<lparr>pps_valid := True, calibration_valid := True, cal_base_micros := 1000000,
          cal_base_millis := 1001, last_pps_time := 1001, pps_received := False\<rparr>"
  by (simp add: updateTimingSource_events_def first_edge_def first_edge_tick_def
        pps_interrupt_def detectClockReset_def booted_tick booted_pps booted_warnings
        processPPS_cases pps_discipline_first_edge)

lemma first_edge_processed:
  "pps_valid (updateTimingSource_events first_edge_tick first_edge)"
  "calibration_valid (updateTimingSource_events first_edge_tick first_edge)"
  "\<not> clock_reset_detected (updateTimingSource_events first_edge_tick first_edge)"
  "\<not> degradation_warned (updateTimingSource_events first_edge_tick first_edge)"
  "last_pps_time (updateTimingSource_events first_edge_tick first_edge) = 1001"
  by (simp_all add: first_edge_events println_def booted_tick booted_warnings)

lemma classifyTimingSource_stale:
  assumes "pps_valid s" and "\<not> clock_reset_detected s" and "\<not> degradation_warned s"
    and "300000 \<le> now - last_pps_time s"
  shows "current_source (classifyTimingSource now s) = TIMING_INTERNAL_RAW"
    and "timing_accuracy_us (classifyTimingSource now s) = 1000"
    and "\<not> pps_valid (classifyTimingSource now s)"
    and "out (classifyTimingSource now s)
           = out s @ [WARNING ''GPS PPS lost - timing accuracy degraded'']"
proof -
  have far: "\<not> now - last_pps_time s < 300000" "\<not> now - last_pps_time s < 60000"
      "\<not> now - last_pps_time s < 1500"
    using assms(4) by (simp_all add: word_le_nat_alt word_less_nat_alt)
  show "current_source (classifyTimingSource now s) = TIMING_INTERNAL_RAW"
    and "timing_accuracy_us (classifyTimingSource now s) = 1000"
    and "\<not> pps_valid (classifyTimingSource now s)"
    and "out (classifyTimingSource now s)
           = out s @ [WARNING ''GPS PPS lost - timing accuracy degraded'']"
    using assms(1-3) far
    by (simp_all add: classifyTimingSource_def Let_def println_def)
qed

lemma first_edge_classified:
  "current_source (updateTimingSource first_edge_tick first_edge) = TIMING_INTERNAL_RAW"
  "timing_accuracy_us (updateTimingSource first_edge_tick first_edge) = 1000"
  "\<not> pps_valid (updateTimingSource first_edge_tick first_edge)"
  "last (out (updateTimingSource first_edge_tick first_edge))
     = WARNING ''GPS PPS lost - timing accuracy degraded''"
proof -
  have tick: "ms_entry first_edge_tick = 1000" by (simp add: first_edge_tick_def)
  have stale: "300000 \<le> (1000::u32) - last_pps_time
                 (updateTimingSource_events first_edge_tick first_edge)"
    by (simp add: first_edge_processed)
  note c = classifyTimingSource_stale [OF first_edge_processed(1,3,4) stale]
  show "current_source (updateTimingSource first_edge_tick first_edge) = TIMING_INTERNAL_RAW"
    "timing_accuracy_us (updateTimingSource first_edge_tick first_edge) = 1000"
    "\<not> pps_valid (updateTimingSource first_edge_tick first_edge)"
    "last (out (updateTimingSource first_edge_tick first_edge))
       = WARNING ''GPS PPS lost - timing accuracy degraded''"
    by (simp_all add: updateTimingSource_def tick c)
qed

text \<open>
  C5, evaluated at the failing input. The interrupt of the first PPS edge after boot
  fires at \<open>millis() = 1000\<close>; the next \<open>updateTimingSource\<close> reads 1000 at its
  entry and \<open>processPPS\<close> reads 1001. The edge is accepted: before the
  classification \<open>pps_valid\<close> and \<open>calibration_valid\<close> hold, no reset is flagged and
  \<open>last_pps_time\<close> is 1001, so the edge is not older than one millisecond and the
  table gives PPS active with an accuracy of 1 microsecond. The classification
  subtracts the stored time from the reading taken at the entry, \<open>1000 - 1001\<close> in
  unsigned 32-bit arithmetic, which is 4294967295: the source becomes internal raw
  with an accuracy of 1000 microseconds, the warning that the GPS PPS is lost is
  written and \<open>pps_valid\<close> is cleared.
\<close>

theorem updateTimingSource_fresh_edge_lost:
  "(let e = updateTimingSource_events first_edge_tick first_edge;
        s' = updateTimingSource first_edge_tick first_edge
    in pps_valid e \<and> calibration_valid e \<and> \<not> clock_reset_detected e
     \<and> last_pps_time e = 1001
     \<and> ms_entry first_edge_tick - last_pps_time e = 4294967295
     \<and> current_source s' = TIMING_INTERNAL_RAW
     \<and> timing_accuracy_us s' = 1000
     \<and> \<not> pps_valid s'
     \<and> last (out s') = WARNING ''GPS PPS lost - timing accuracy degraded''
     \<and> quality_table True True 0 False = (TIMING_PPS_ACTIVE, 1)
     \<and> quality_table True True 1 False = (TIMING_PPS_ACTIVE, 1))"
proof -
  have tick: "ms_entry first_edge_tick = 1000" by (simp add: first_edge_tick_def)
  show ?thesis
    by (simp add: Let_def first_edge_processed first_edge_classified tick quality_table_def)
qed

section \<open>C4: start on the n-th PPS edge\<close>

text \<open>
  C4, evaluated at the failing input. After \<open>START_STREAM_PPS:100,2\<close> on the booted
  firmware the countdown is 2 and no stream runs. The first PPS edge is counted twice,
  at the head and at the tail of \<open>processPPS\<close>, so streaming is established on the
  first edge (\<open>pps_count = 1\<close>), not on the second. And when the edge arrives after a
  wrap of the microsecond counter, the timing base is the raw 32-bit reading 5000000
  of the edge, while the edge in virtual time is \<open>2^32 + 5000000\<close>.
\<close>

theorem processPPS_starts_before_nth_edge:
  "pps_countdown armed_2 = 2 \<and> \<not> streaming armed_2 \<and> pps_count armed_2 = 0
   \<and> pps_count (pps_edge 5000000 5000 armed_2) = 1
   \<and> streaming (pps_edge 5000000 5000 armed_2)
   \<and> timing_established (pps_edge 5000000 5000 armed_2)
   \<and> streaming (pps_edge 5000000 4299967 armed_1_wrapped)
   \<and> virtual_micros_offset (pps_edge 5000000 4299967 armed_1_wrapped) = 4294967296
   \<and> timing_base_micros (pps_edge 5000000 4299967 armed_1_wrapped) = 5000000"
  by (simp add: armed_2_def armed_1_wrapped_def pps_edge_def pps_interrupt_def
        cmd_START_STREAM_PPS_arms booted_pps wrapped_once_fields processPPS_cases
        pps_discipline_starts begin_streaming_at_pps_fields)

section \<open>C2: the limit of the stored calibration\<close>

text \<open>
  C2, evaluated at the failing input. In the run \<open>early_calibration\<close> the second PPS
  edge is the first one used for calibration (\<open>pps_count = 2\<close>, below 10); it measures
  an error of 500 ppm, and the calibration is stored as -500 ppm without passing the
  limit of 200 ppm. The same value given by \<open>SET_CAL_PPM\<close> is clamped to -200 ppm.
\<close>

theorem processPPS_initial_calibration_unclamped:
  "pps_count early_calibration = 2
   \<and> oscillator_calibration_ppm early_calibration = - 500
   \<and> oscillator_calibration_ppm (cmd_SET_CAL_PPM (- 500) booted) = - 200"
  by (simp add: early_calibration_def pps_edge_def pps_interrupt_def
        cmd_START_STREAM_PPS_arms calibrated_boot_fields processPPS_cases
        pps_discipline_calibrates begin_streaming_at_pps_fields pps_calibrate_initial
        cmd_SET_CAL_PPM_def clampOscillatorCalibration_def saveOscillatorCalibration_def
        println_def)

end
